theory Spec2Isabelle
  imports Complex_Main "HOL-Library.AList"
begin

section \<open>Common modelling conventions\<close>

text \<open>
  The repository holds three variants of one trading bot:
  \<^item> the poll-based bot of \<^verbatim>\<open>src/bot.js\<close> (\<^verbatim>\<open>rugChecks\<close>, \<^verbatim>\<open>processPool\<close>,
    \<^verbatim>\<open>monitorLoop\<close>);
  \<^item> its reworked version, the first program of \<^verbatim>\<open>src/unnamed/part_000\<close>
    (\<^verbatim>\<open>performRugChecks\<close>, \<^verbatim>\<open>processNewPool\<close>, \<^verbatim>\<open>checkAndSellPositions\<close>);
  \<^item> the log-subscription bot, the second program of \<^verbatim>\<open>src/unnamed/part_000\<close>
    (\<^verbatim>\<open>swapSell\<close>, \<^verbatim>\<open>monitorPosition\<close>, \<^verbatim>\<open>detectNewPools\<close>).

  Every network call is an input of the model: what the call gave back is a parameter
  of the function that makes the call. A call that can throw (a rejected promise) has
  a result of type \<open>'a fetch\<close>.
\<close>

datatype 'a fetch = Throws string | Returned 'a

section \<open>JavaScript numbers\<close>

text \<open>
  A JavaScript number is an IEEE 754 binary64 value: a finite real, an infinity or NaN.
  Every arithmetic operation computes the exact result and rounds it to the nearest
  representable value, ties to the even significand, with gradual underflow and overflow
  to infinity. The sign of a zero is not modelled: it can only show in a division by
  zero, and the code divides by a supply, a price or a power of ten, each tested to be
  non-zero first.
\<close>

datatype double = Finite real | PosInf | NegInf | NaN

text \<open>Rounding a real to the nearest integer, ties to even.\<close>

definition rhe :: "real \<Rightarrow> int" where
  "rhe x = (let f = \<lfloor>x\<rfloor>
            in if x - of_int f < 1/2 then f
               else if 1/2 < x - of_int f then f + 1
               else if even f then f else f + 1)"

text \<open>
  The binary exponent of a positive real, \<open>\<lfloor>log\<^sub>2 x\<rfloor>\<close>, found by halving or doubling at
  most \<open>n\<close> times (so clipped to \<open>-n .. n\<close>; the exponents of binary64 lie within
  \<open>-1074 .. 1023\<close>).
\<close>

fun expo :: "nat \<Rightarrow> real \<Rightarrow> int" where
  "expo 0 x = 0"
| "expo (Suc n) x =
     (if 2 \<le> x then expo n (x / 2) + 1 else if x < 1 then expo n (x * 2) - 1 else 0)"

definition pow2 :: "int \<Rightarrow> real" where
  "pow2 k = (if 0 \<le> k then 2 ^ nat k else 1 / 2 ^ nat (- k))"

text \<open>
  A positive real rounded to 53 significant bits: the unit in the last place is
  \<open>2\<^sup>e\<^sup>-\<^sup>5\<^sup>2\<close> for the exponent \<open>e\<close>, and never below \<open>2\<^sup>-\<^sup>1\<^sup>0\<^sup>7\<^sup>4\<close> (subnormal numbers).
  A result of \<open>2\<^sup>1\<^sup>0\<^sup>2\<^sup>4\<close> or more is an overflow.
\<close>

definition roundPos :: "real \<Rightarrow> real" where
  "roundPos x = (let k = max (expo 1100 x - 52) (- 1074)
                 in of_int (rhe (x / pow2 k)) * pow2 k)"

definition toDouble :: "real \<Rightarrow> double" where
  "toDouble x =
     (if x = 0 then Finite 0
      else let r = roundPos \<bar>x\<bar>
           in if 2 ^ 1024 \<le> r then (if 0 < x then PosInf else NegInf)
              else Finite (if 0 < x then r else - r))"

text \<open>
  \<^verbatim>\<open>Number(x)\<close> of an unsigned integer (a decimal string or a \<^verbatim>\<open>bigint\<close>), and
  \<^verbatim>\<open>Math.pow(10, k)\<close>.
\<close>

definition Number :: "nat \<Rightarrow> double" where
  "Number n = toDouble (real n)"

definition pow10 :: "nat \<Rightarrow> double" where
  "pow10 k = toDouble (10 ^ k)"

fun fneg :: "double \<Rightarrow> double" where
  "fneg (Finite a) = Finite (- a)"
| "fneg PosInf = NegInf"
| "fneg NegInf = PosInf"
| "fneg NaN = NaN"

fun fadd :: "double \<Rightarrow> double \<Rightarrow> double" where
  "fadd (Finite a) (Finite b) = toDouble (a + b)"
| "fadd NaN y = NaN"
| "fadd x NaN = NaN"
| "fadd PosInf NegInf = NaN"
| "fadd NegInf PosInf = NaN"
| "fadd PosInf y = PosInf"
| "fadd NegInf y = NegInf"
| "fadd x PosInf = PosInf"
| "fadd x NegInf = NegInf"

definition fsub :: "double \<Rightarrow> double \<Rightarrow> double" where
  "fsub x y = fadd x (fneg y)"

fun fmul :: "double \<Rightarrow> double \<Rightarrow> double" where
  "fmul (Finite a) (Finite b) = toDouble (a * b)"
| "fmul NaN y = NaN"
| "fmul x NaN = NaN"
| "fmul (Finite a) PosInf = (if a = 0 then NaN else if 0 < a then PosInf else NegInf)"
| "fmul (Finite a) NegInf = (if a = 0 then NaN else if 0 < a then NegInf else PosInf)"
| "fmul PosInf (Finite b) = (if b = 0 then NaN else if 0 < b then PosInf else NegInf)"
| "fmul NegInf (Finite b) = (if b = 0 then NaN else if 0 < b then NegInf else PosInf)"
| "fmul PosInf PosInf = PosInf"
| "fmul PosInf NegInf = NegInf"
| "fmul NegInf PosInf = NegInf"
| "fmul NegInf NegInf = PosInf"

fun fdiv :: "double \<Rightarrow> double \<Rightarrow> double" where
  "fdiv (Finite a) (Finite b) =
     (if b = 0 then (if a = 0 then NaN else if 0 < a then PosInf else NegInf)
      else toDouble (a / b))"
| "fdiv NaN y = NaN"
| "fdiv x NaN = NaN"
| "fdiv (Finite a) PosInf = Finite 0"
| "fdiv (Finite a) NegInf = Finite 0"
| "fdiv PosInf (Finite b) = (if 0 \<le> b then PosInf else NegInf)"
| "fdiv NegInf (Finite b) = (if 0 \<le> b then NegInf else PosInf)"
| "fdiv PosInf PosInf = NaN"
| "fdiv PosInf NegInf = NaN"
| "fdiv NegInf PosInf = NaN"
| "fdiv NegInf NegInf = NaN"

text \<open>\<^verbatim>\<open>x < y\<close>, \<^verbatim>\<open>x === y\<close> and \<^verbatim>\<open>x <= y\<close>: every comparison with NaN is false.\<close>

fun flt :: "double \<Rightarrow> double \<Rightarrow> bool" where
  "flt (Finite a) (Finite b) = (a < b)"
| "flt NaN y = False"
| "flt x NaN = False"
| "flt x NegInf = False"
| "flt PosInf y = False"
| "flt NegInf y = True"
| "flt x PosInf = True"

fun feq :: "double \<Rightarrow> double \<Rightarrow> bool" where
  "feq (Finite a) (Finite b) = (a = b)"
| "feq PosInf PosInf = True"
| "feq NegInf NegInf = True"
| "feq x y = False"

definition fle :: "double \<Rightarrow> double \<Rightarrow> bool" where
  "fle x y = (flt x y \<or> feq x y)"

text \<open>Truthiness of a number (\<^verbatim>\<open>0\<close> and \<^verbatim>\<open>NaN\<close> are falsy), \<^verbatim>\<open>Math.floor\<close>, \<^verbatim>\<open>Math.round\<close>.\<close>

fun truthyD :: "double \<Rightarrow> bool" where
  "truthyD (Finite a) = (a \<noteq> 0)"
| "truthyD NaN = False"
| "truthyD x = True"

definition falsyD :: "double \<Rightarrow> bool" where
  "falsyD x = (\<not> truthyD x)"

fun ffloor :: "double \<Rightarrow> double" where
  "ffloor (Finite a) = Finite (of_int \<lfloor>a\<rfloor>)"
| "ffloor x = x"

fun fround :: "double \<Rightarrow> double" where
  "fround (Finite a) = Finite (of_int \<lfloor>a + 1/2\<rfloor>)"
| "fround x = x"

section \<open>The risk evaluator\<close>

text \<open>
  What \<^verbatim>\<open>getMint\<close> returns: the fields the checks read. The supply is an unsigned
  64-bit integer (a \<^verbatim>\<open>bigint\<close>).
\<close>

record mintInfo =
  mintAuthority :: "string option"
  freezeAuthority :: "string option"
  mint_supply :: nat
  decimals :: nat

text \<open>
  What \<^verbatim>\<open>getTokenLargestAccounts\<close> resolves to: \<^verbatim>\<open>null\<close>/\<^verbatim>\<open>undefined\<close>, an object
  with no \<^verbatim>\<open>value\<close>, or an object whose \<^verbatim>\<open>value\<close> lists the accounts' amounts
  (decimal strings of unsigned integers) in the order of the response.
\<close>

datatype largestAccounts = LargestNull | LargestNoValue | LargestValue "nat list"

record rugDetails =
  d_supply :: double
  d_decimals :: nat
  d_topPercent :: double

record verdict =
  safe :: bool
  reason :: "string option"
  topPercent :: "double option"
  details :: "rugDetails option"
  error :: "string option"

definition unsafe :: "string \<Rightarrow> verdict" where
  "unsafe r = \<lparr>safe = False, reason = Some r, topPercent = None, details = None, error = None\<rparr>"

text \<open>
  \<^verbatim>\<open>let totalTop = 0; for (const acc of topAccounts) totalTop += Number(acc.amount);\<close>
  over the first \<open>n\<close> accounts (\<^verbatim>\<open>slice(0, n)\<close>), and the percentage both evaluators
  compute from it, \<^verbatim>\<open>(totalTop / supply) * 100\<close>, in the arithmetic of the language.
\<close>

definition totalTop :: "nat \<Rightarrow> nat list \<Rightarrow> double" where
  "totalTop n accounts = foldl (\<lambda>t amount. fadd t (Number amount)) (Finite 0) (take n accounts)"

definition percentOf :: "double \<Rightarrow> double \<Rightarrow> double" where
  "percentOf sumTop supply = fmul (fdiv sumTop supply) (Finite 100)"

subsection \<open>\<^verbatim>\<open>rugChecks\<close> of \<^verbatim>\<open>src/bot.js\<close>\<close>

text \<open>
  The arguments are the outcomes of \<^verbatim>\<open>new PublicKey(tokenMintStr)\<close>, of \<^verbatim>\<open>getMint\<close>
  and of \<^verbatim>\<open>getTokenLargestAccounts\<close>; the whole body stands in one
  \<^verbatim>\<open>try\<close>, whose \<^verbatim>\<open>catch\<close> returns the reason \<^verbatim>\<open>error\<close>. Console output is left out.
\<close>

definition rugChecks :: "unit fetch \<Rightarrow> mintInfo fetch \<Rightarrow> largestAccounts fetch \<Rightarrow> verdict" where
  "rugChecks publicKey getMint getTokenLargestAccounts =
    (case publicKey of
       Throws e \<Rightarrow> unsafe ''error''
     | Returned u \<Rightarrow>
      (case getMint of
         Throws e \<Rightarrow> unsafe ''error''
       | Returned mintInfo \<Rightarrow>
          if mintAuthority mintInfo \<noteq> None then unsafe ''mintAuthorityPresent''
          else
           (case getTokenLargestAccounts of
              Throws e \<Rightarrow> unsafe ''error''
            | Returned LargestNull \<Rightarrow> unsafe ''noTokenAccounts''
            | Returned LargestNoValue \<Rightarrow> unsafe ''noTokenAccounts''
            | Returned (LargestValue accounts) \<Rightarrow>
                if accounts = [] then unsafe ''noTokenAccounts''
                else
                  let supply = Number (mint_supply mintInfo);
                      pct = (if flt (Finite 0) supply
                             then percentOf (totalTop 3 accounts) supply else Finite 100)
                  in if flt (Finite 50) pct
                     then (unsafe ''concentrated_holders'')\<lparr>topPercent := Some pct\<rparr>
                     else if 9 < decimals mintInfo \<or> feq supply (Finite 0)
                     then unsafe ''weird_mint''
                     else \<lparr>safe = True, reason = None, topPercent = None, details = None,
                            error = None\<rparr>)))"

subsection \<open>\<^verbatim>\<open>performRugChecks\<close> of \<^verbatim>\<open>src/unnamed/part_000\<close>\<close>

text \<open>
  The fourth argument is the outcome of \<^verbatim>\<open>getTokenAccountsByOwner\<close> (the length of
  its \<^verbatim>\<open>value\<close>), which step 4 wraps in a \<^verbatim>\<open>try\<close> of its own. That step only
  prints, so the function returns its warnings (the \<^verbatim>\<open>console.warn\<close> and
  \<^verbatim>\<open>console.error\<close> lines, without the interpolated values) beside the verdict.
  Reading \<^verbatim>\<open>largest.value\<close> of \<^verbatim>\<open>null\<close> is a TypeError, caught by the outer
  \<^verbatim>\<open>catch\<close> like every other exception; the text of its message is the engine's.
\<close>

definition check_failed :: "string \<Rightarrow> string list \<Rightarrow> verdict \<times> string list" where
  "check_failed msg warned =
     (\<lparr>safe = False, reason = Some ''check_failed'', topPercent = None, details = None,
       error = Some msg\<rparr>,
      warned @ [''Rug checks failed''])"

definition lpBurnedCheck :: "nat fetch \<Rightarrow> string list" where
  "lpBurnedCheck getTokenAccountsByOwner =
    (case getTokenAccountsByOwner of
       Throws e \<Rightarrow> [''Could not fetch token accounts'']
     | Returned n \<Rightarrow> if n = 0 then [''No token accounts found for mint''] else [])"

definition performRugChecks ::
  "unit fetch \<Rightarrow> mintInfo fetch \<Rightarrow> largestAccounts fetch \<Rightarrow> nat fetch
     \<Rightarrow> verdict \<times> string list" where
  "performRugChecks publicKey getMint getTokenLargestAccounts getTokenAccountsByOwner =
    (case publicKey of
       Throws e \<Rightarrow> check_failed e []
     | Returned u \<Rightarrow>
      (case getMint of
         Throws e \<Rightarrow> check_failed e []
       | Returned mintInfo \<Rightarrow>
          if mintAuthority mintInfo \<noteq> None
          then (unsafe ''mintAuthorityPresent'', [''has mint authority - HIGH RISK''])
          else
            let warned = (if freezeAuthority mintInfo \<noteq> None
                          then [''has freeze authority - MEDIUM RISK''] else []);
                supply = Number (mint_supply mintInfo)
            in if feq supply (Finite 0) then (unsafe ''zero_supply'', warned)
               else if 18 < decimals mintInfo
               then (unsafe ''excessive_decimals'', warned @ [''decimals - HIGH RISK''])
               else
                (case getTokenLargestAccounts of
                   Throws e \<Rightarrow> check_failed e warned
                 | Returned LargestNull \<Rightarrow>
                     check_failed ''Cannot read properties of null (reading 'value')'' warned
                 | Returned LargestNoValue \<Rightarrow> (unsafe ''no_token_accounts'', warned)
                 | Returned (LargestValue accounts) \<Rightarrow>
                     if accounts = [] then (unsafe ''no_token_accounts'', warned)
                     else
                       let pct = percentOf (totalTop 5 accounts) supply
                       in if flt (Finite 70) pct
                          then ((unsafe ''concentrated_holders'')\<lparr>topPercent := Some pct\<rparr>,
                                warned @ [''Top 5 holders control - HIGH RISK''])
                          else (\<lparr>safe = True, reason = None, topPercent = None,
                                  details = Some \<lparr>d_supply = supply,
                                    d_decimals = decimals mintInfo, d_topPercent = pct\<rparr>,
                                  error = None\<rparr>,
                                warned @ lpBurnedCheck getTokenAccountsByOwner))))"

text \<open>
  The share of the specification's words, in exact arithmetic: the sum of the first
  \<open>n\<close> balances over the total supply, times 100. The code does not compute it; it
  is here to be compared with what the code computes.
\<close>

definition exactShare :: "nat \<Rightarrow> nat list \<Rightarrow> nat \<Rightarrow> real" where
  "exactShare n accounts supply = real (sum_list (take n accounts)) / real supply * 100"

text \<open>A mint with no mint authority and no freeze authority, for concrete inputs.\<close>

definition mintA :: "nat \<Rightarrow> nat \<Rightarrow> mintInfo" where
  "mintA s d = \<lparr>mintAuthority = None, freezeAuthority = None, mint_supply = s, decimals = d\<rparr>"

section \<open>Pools, the seen-set and the position map of the polling bots\<close>

text \<open>
  A pool object of the listing, with the fields either bot reads; a field that is
  absent is \<open>None\<close>. \<^verbatim>\<open>tokenA_mint\<close> stands for \<^verbatim>\<open>pool.tokenA.mint\<close> (absent when
  \<^verbatim>\<open>pool.tokenA\<close> is), and so on.
\<close>

record pool =
  pool_id :: "string option"
  ammId :: "string option"
  address :: "string option"
  lpMint :: "string option"
  tokenA_mint :: "string option"
  tokenB_mint :: "string option"
  baseMint :: "string option"
  quoteMint :: "string option"
  tokenMintA :: "string option"
  tokenMintB :: "string option"
  tokenA_price :: "double option"
  tokenB_price :: "double option"

text \<open>JavaScript truthiness of an optional string, and \<^verbatim>\<open>a || b\<close>.\<close>

definition truthy :: "string option \<Rightarrow> bool" where
  "truthy v = (case v of None \<Rightarrow> False | Some s \<Rightarrow> s \<noteq> [])"

definition js_or :: "string option \<Rightarrow> string option \<Rightarrow> string option" where
  "js_or a b = (if truthy a then a else b)"

text \<open>
  The dedup test both \<^verbatim>\<open>processPool\<close> and \<^verbatim>\<open>processNewPool\<close> open with:
  \<^verbatim>\<open>if (!poolId) return; if (seenPools.has(poolId)) return; seenPools.add(poolId);\<close>
  The result is \<open>None\<close> when the function returns there, and otherwise the pool
  identifier with the grown seen-set. No \<^verbatim>\<open>await\<close> stands between the test and the
  insertion.
\<close>

definition markSeen :: "string option \<Rightarrow> string set \<Rightarrow> (string \<times> string set) option" where
  "markSeen poolId seen =
    (case poolId of
       None \<Rightarrow> None
     | Some i \<Rightarrow> if i = [] \<or> i \<in> seen then None else Some (i, insert i seen))"

definition poolIdOf_bot :: "pool \<Rightarrow> string option" where
  "poolIdOf_bot p = js_or (js_or (js_or (pool_id p) (ammId p)) (address p)) (lpMint p)"

definition poolIdOf_part :: "pool \<Rightarrow> string option" where
  "poolIdOf_part p = js_or (pool_id p) (address p)"

text \<open>
  The calls to the swap service, recorded in the order they are made, with the place
  they are made from and the amount they carry.
\<close>

datatype callSite = Buying | Selling

record quoteData =
  outAmount :: double

datatype apiCall =
    TradeApi callSite "string option" "string option" double nat
  | GetSwapQuote callSite string string double
  | ExecuteSwap callSite quoteData

fun siteOf :: "apiCall \<Rightarrow> callSite" where
  "siteOf (TradeApi s f t a sl) = s"
| "siteOf (GetSwapQuote s f t a) = s"
| "siteOf (ExecuteSwap s q) = s"

text \<open>
  The state of a polling bot: the \<^verbatim>\<open>seenPools\<close> set, the \<^verbatim>\<open>positions\<close> map, the
  calls made, and the pool events: each \<^verbatim>\<open>New pool detected\<close> line the bot prints when
  a pool has passed the dedup test and the tests of its token mint, with the pool
  identifier and the token mint; the risk evaluator and the buy come after that line.
  A JavaScript \<^verbatim>\<open>Map\<close> iterates in insertion order, \<^verbatim>\<open>set\<close> on a present key replaces
  the value in place and \<^verbatim>\<open>delete\<close> removes the entry: an association list with
  \<open>AList.update\<close> and \<open>AList.delete\<close>.
\<close>

record 'p bot =
  seenPools :: "string set"
  positions :: "(string \<times> 'p) list"
  apiCalls :: "apiCall list"
  events :: "(string \<times> string) list"

text \<open>
  What the network gives while one pool is processed: the outcomes of the calls of the
  risk evaluator, the price (\<open>None\<close> for \<^verbatim>\<open>null\<close>; \<^verbatim>\<open>parseFloat\<close> may give NaN), the
  quote, the signature of the executed swap (\<open>None\<close> for \<^verbatim>\<open>null\<close>) and the clock in
  milliseconds.
\<close>

record poolEnv =
  e_publicKey :: "unit fetch"
  e_getMint :: "mintInfo fetch"
  e_largest :: "largestAccounts fetch"
  e_owner :: "nat fetch"
  e_price :: "double option"
  e_quote :: "quoteData option"
  e_signature :: "string option"
  e_now :: nat

record config =
  BUY_USD :: double
  TARGET_MULTIPLIER :: double
  QUOTE_MINT :: string

section \<open>The poll-based bot of \<^verbatim>\<open>src/bot.js\<close>\<close>

record positionA =
  buyPrice :: "double option"
  amountA :: "double option"
  txSignature :: string
  boughtAt :: nat

text \<open>
  \<^verbatim>\<open>estimatePriceFromPool\<close>: the price of \<^verbatim>\<open>tokenA\<close> when both tokens carry a truthy
  price, \<^verbatim>\<open>null\<close> on every other path.
\<close>

definition estimatePriceFromPool :: "pool \<Rightarrow> double option" where
  "estimatePriceFromPool p =
    (case (tokenA_price p, tokenB_price p) of
       (Some a, Some b) \<Rightarrow> if truthyD a \<and> truthyD b then Some a else None
     | _ \<Rightarrow> None)"

text \<open>
  The token mint \<^verbatim>\<open>processPool\<close> reads from a pool (\<^verbatim>\<open>null\<close> when no field holds one),
  and \<^verbatim>\<open>processPool\<close>.
\<close>

definition tokenMintOf_bot :: "pool \<Rightarrow> string option" where
  "tokenMintOf_bot p = js_or (js_or (tokenA_mint p) (baseMint p)) (tokenMintA p)"

definition processPool :: "config \<Rightarrow> poolEnv \<Rightarrow> pool \<Rightarrow> positionA bot \<Rightarrow> positionA bot" where
  "processPool cfg env p st =
    (case markSeen (poolIdOf_bot p) (seenPools st) of
       None \<Rightarrow> st
     | Some (poolId, seen) \<Rightarrow>
        let st1 = st\<lparr>seenPools := seen\<rparr>;
            quoteMint' = js_or (js_or (tokenB_mint p) (quoteMint p)) (tokenMintB p)
        in (case tokenMintOf_bot p of
              None \<Rightarrow> st1
            | Some tm \<Rightarrow>
               if tm = [] then st1
               else
                 let st1' = st1\<lparr>events := events st1 @ [(poolId, tm)]\<rparr>
                 in if safe (rugChecks (e_publicKey env) (e_getMint env) (e_largest env))
                    then
                      let price = estimatePriceFromPool p;
                          quoteAmount = BUY_USD cfg;
                          st2 = st1'\<lparr>apiCalls := apiCalls st1' @
                                  [TradeApi Buying
                                     (if truthy quoteMint' then quoteMint' else None)
                                     (Some tm)
                                     (fround (fmul quoteAmount (Finite 1000000))) 2]\<rparr>
                      in (case e_signature env of
                            None \<Rightarrow> st2
                          | Some buySig \<Rightarrow>
                             if buySig = [] then st2
                             else st2\<lparr>positions := AList.update tm
                                    \<lparr>buyPrice = price, amountA = None,
                                     txSignature = buySig, boughtAt = e_now env\<rparr>
                                    (positions st2)\<rparr>)
                    else st1'))"

text \<open>
  The body of the second \<^verbatim>\<open>for\<close> loop of \<^verbatim>\<open>monitorLoop\<close>, for one entry of
  \<^verbatim>\<open>positions\<close>. \<^verbatim>\<open>currentPrice\<close> is the constant \<^verbatim>\<open>null\<close> of the source;
  \<open>sellResult\<close> is what the reverse swap would return for a mint.
\<close>

definition sellCheck ::
  "config \<Rightarrow> (string \<Rightarrow> string option) \<Rightarrow> string \<times> positionA \<Rightarrow> positionA bot \<Rightarrow> positionA bot" where
  "sellCheck cfg sellResult entry st =
    (let tokenMint = fst entry; pos = snd entry; currentPrice = (None :: double option)
     in case (buyPrice pos, currentPrice) of
          (Some bp, Some cp) \<Rightarrow>
            if truthyD bp \<and> truthyD cp \<and> fle (fmul bp (TARGET_MULTIPLIER cfg)) cp
            then
              let st1 = st\<lparr>apiCalls := apiCalls st @
                          [TradeApi Selling (Some tokenMint) None (Finite 0) 2]\<rparr>
              in (case sellResult tokenMint of
                    None \<Rightarrow> st1
                  | Some sellSig \<Rightarrow>
                     if sellSig = [] then st1
                     else st1\<lparr>positions := AList.delete tokenMint (positions st1)\<rparr>)
            else st
        | _ \<Rightarrow> st)"

text \<open>
  One firing of the interval callback of \<^verbatim>\<open>monitorLoop\<close>: the listing (with, for each
  pool, what the network gives while it is processed), an early return on an empty
  listing, \<^verbatim>\<open>processPool\<close> on every pool, then the loop over \<^verbatim>\<open>positions\<close>. A run of
  the bot is a sequence of firings.
\<close>

record tick =
  listing :: "(pool \<times> poolEnv) list"
  sellResults :: "string \<Rightarrow> string option"

definition monitorTick :: "config \<Rightarrow> tick \<Rightarrow> positionA bot \<Rightarrow> positionA bot" where
  "monitorTick cfg t st =
    (if listing t = [] then st
     else
       let st1 = foldl (\<lambda>s pe. processPool cfg (snd pe) (fst pe) s) st (listing t)
       in foldl (\<lambda>s entry. sellCheck cfg (sellResults t) entry s) st1 (positions st1))"

definition monitorLoop :: "config \<Rightarrow> tick list \<Rightarrow> positionA bot \<Rightarrow> positionA bot" where
  "monitorLoop cfg ts st = foldl (\<lambda>s t. monitorTick cfg t s) st ts"

definition sellCalls :: "'p bot \<Rightarrow> apiCall list" where
  "sellCalls st = filter (\<lambda>c. siteOf c = Selling) (apiCalls st)"

definition emptyPool :: pool where
  "emptyPool = \<lparr>pool_id = None, ammId = None, address = None, lpMint = None,
     tokenA_mint = None, tokenB_mint = None, baseMint = None, quoteMint = None,
     tokenMintA = None, tokenMintB = None, tokenA_price = None, tokenB_price = None\<rparr>"

definition emptyBot :: "'p bot" where
  "emptyBot = \<lparr>seenPools = {}, positions = [], apiCalls = [], events = []\<rparr>"

section \<open>The reworked polling bot of \<^verbatim>\<open>src/unnamed/part_000\<close>\<close>

record positionB =
  buyPriceB :: double
  amountB :: double
  buyTx :: string
  boughtAtB :: nat
  quoteMintB :: string
  targetPrice :: double

definition knownMints :: "string list" where
  "knownMints =
    [''EPjFWdd5AufqSSqeM2qN1xzybapC8G4wEGGkZwyTDt1v'',
     ''Es9vMFrzaCERmJfrF4H2FYD4KCoNkY11McCe8BenwNYB'',
     ''So11111111111111111111111111111111111111112'',
     ''mSoLzYCxHdYgdzU16g5QSh3i5K3z3KZK7ytfqcJm7So'']"

text \<open>
  \<^verbatim>\<open>positions.set(baseMint, {...})\<close> at the end of \<^verbatim>\<open>processNewPool\<close>: no test for
  a present key stands before it.
\<close>

definition recordPosition :: "string \<Rightarrow> 'p \<Rightarrow> 'p bot \<Rightarrow> 'p bot" where
  "recordPosition mint pos st = st\<lparr>positions := AList.update mint pos (positions st)\<rparr>"

text \<open>
  The base mint \<^verbatim>\<open>processNewPool\<close> reads from a pool, and \<^verbatim>\<open>processNewPool\<close>. Every
  call it makes catches its own exceptions (\<^verbatim>\<open>performRugChecks\<close>, \<^verbatim>\<open>getTokenPrice\<close>,
  \<^verbatim>\<open>ensureTokenAccount\<close>, \<^verbatim>\<open>getSwapQuote\<close>, \<^verbatim>\<open>executeSwap\<close>), and the result of
  \<^verbatim>\<open>ensureTokenAccount\<close> is not read. A safe verdict carries its details; were they
  absent, reading \<^verbatim>\<open>rugCheck.details.decimals\<close> would throw into the \<^verbatim>\<open>catch\<close> of the
  function, which only prints.
\<close>

definition baseMintOf_part :: "pool \<Rightarrow> string option" where
  "baseMintOf_part p = js_or (baseMint p) (tokenA_mint p)"

definition processNewPool :: "config \<Rightarrow> poolEnv \<Rightarrow> pool \<Rightarrow> positionB bot \<Rightarrow> positionB bot" where
  "processNewPool cfg env p st =
    (case markSeen (poolIdOf_part p) (seenPools st) of
       None \<Rightarrow> st
     | Some (poolId, seen) \<Rightarrow>
        let st1 = st\<lparr>seenPools := seen\<rparr>;
            quoteMint' = (case js_or (quoteMint p) (tokenB_mint p) of
                            None \<Rightarrow> QUOTE_MINT cfg
                          | Some q \<Rightarrow> if q = [] then QUOTE_MINT cfg else q)
        in (case baseMintOf_part p of
              None \<Rightarrow> st1
            | Some bm \<Rightarrow>
               if bm = [] then st1
               else if bm \<in> set knownMints then st1
               else
                 let st1' = st1\<lparr>events := events st1 @ [(poolId, bm)]\<rparr>;
                     rugCheck = fst (performRugChecks (e_publicKey env) (e_getMint env)
                                       (e_largest env) (e_owner env))
                 in if safe rugCheck then
                   (case e_price env of
                      None \<Rightarrow> st1'
                    | Some currentPrice \<Rightarrow>
                       if falsyD currentPrice \<or> fle currentPrice (Finite 0) then st1'
                       else
                         let quoteAmount = fdiv (BUY_USD cfg) currentPrice;
                             quoteDecimals = (if quoteMint' = QUOTE_MINT cfg then 6 else 9 :: nat);
                             rawAmount = ffloor (fmul quoteAmount (pow10 quoteDecimals))
                         in if fle rawAmount (Finite 0) then st1'
                            else
                              let st2 = st1'\<lparr>apiCalls := apiCalls st1' @
                                          [GetSwapQuote Buying quoteMint' bm rawAmount]\<rparr>
                              in (case e_quote env of
                                    None \<Rightarrow> st2
                                  | Some quoteData \<Rightarrow>
                                     let st3 = st2\<lparr>apiCalls := apiCalls st2 @
                                                 [ExecuteSwap Buying quoteData]\<rparr>
                                     in (case e_signature env of
                                           None \<Rightarrow> st3
                                         | Some buySignature \<Rightarrow>
                                            if buySignature = [] then st3
                                            else
                                             (case details rugCheck of
                                                None \<Rightarrow> st3
                                              | Some d \<Rightarrow>
                                                 let tokenAmount =
                                                       fdiv (outAmount quoteData)
                                                         (pow10 (d_decimals d))
                                                 in recordPosition bm
                                                      \<lparr>buyPriceB = currentPrice,
                                                       amountB = tokenAmount,
                                                       buyTx = buySignature,
                                                       boughtAtB = e_now env,
                                                       quoteMintB = quoteMint',
                                                       targetPrice =
                                                         fmul currentPrice
                                                           (TARGET_MULTIPLIER cfg)\<rparr>
                                                      st3))))
                 else st1'))"

text \<open>
  What the network gives while \<^verbatim>\<open>checkAndSellPositions\<close> looks at one position: the
  price (\<open>None\<close> for \<^verbatim>\<open>null\<close>), the clock in milliseconds, the sell quote and the
  signature of the executed sell. None of the calls throws: each catches its own
  exceptions. The clock and \<^verbatim>\<open>boughtAt\<close> are integers far below \<open>2\<^sup>5\<^sup>3\<close>, so their
  difference is exact.
\<close>

record sellEnvB =
  c_price :: "double option"
  c_now :: nat
  c_quote :: "quoteData option"
  c_signature :: "string option"

text \<open>
  The body of the loop of \<^verbatim>\<open>checkAndSellPositions\<close> for one entry. The log line with
  the reason of the sale (\<^verbatim>\<open>24h timeout\<close> when the position is old, \<^verbatim>\<open>target reached\<close>
  otherwise) is returned beside the state.
\<close>

definition checkAndSell ::
  "sellEnvB \<Rightarrow> string \<times> positionB \<Rightarrow> positionB bot \<Rightarrow> string list \<times> positionB bot" where
  "checkAndSell env entry st =
    (let tokenMint = fst entry; position = snd entry
     in case c_price env of
          None \<Rightarrow> ([], st)
        | Some currentPrice \<Rightarrow>
           if falsyD currentPrice then ([], st)
           else
             let positionAge = int (c_now env) - int (boughtAtB position);
                 isOldPosition = (24 * 60 * 60 * 1000 < positionAge)
             in if fle (targetPrice position) currentPrice \<or> isOldPosition
                then
                  let why = (if isOldPosition then ''24h timeout'' else ''target reached'');
                      rawAmount = ffloor (fmul (amountB position) (pow10 9));
                      st1 = st\<lparr>apiCalls := apiCalls st @
                              [GetSwapQuote Selling tokenMint (quoteMintB position) rawAmount]\<rparr>
                  in (case c_quote env of
                        None \<Rightarrow> ([why], st1)
                      | Some quoteData \<Rightarrow>
                         let st2 = st1\<lparr>apiCalls := apiCalls st1 @
                                     [ExecuteSwap Selling quoteData]\<rparr>
                         in (case c_signature env of
                               None \<Rightarrow> ([why], st2)
                             | Some sellSignature \<Rightarrow>
                                if sellSignature = [] then ([why], st2)
                                else ([why], st2\<lparr>positions :=
                                                 AList.delete tokenMint (positions st2)\<rparr>)))
                else ([], st))"

text \<open>
  \<^verbatim>\<open>checkAndSellPositions\<close>: the loop over the entries of \<^verbatim>\<open>positions\<close>, each with
  what the network gives for it. Only the entry at hand is ever deleted, so the loop
  runs over the entries the map had when it started.
\<close>

definition checkAndSellPositions ::
  "(string \<Rightarrow> sellEnvB) \<Rightarrow> positionB bot \<Rightarrow> string list \<times> positionB bot" where
  "checkAndSellPositions envOf st =
    foldl (\<lambda>acc entry.
             let r = checkAndSell (envOf (fst entry)) entry (snd acc)
             in (fst acc @ fst r, snd r))
          ([], st) (positions st)"

text \<open>
  The pool events of a bot's state are well-formed when no pool identifier has two
  events and every identifier with an event is in the seen-set. What a pool adds to the
  events, given the seen-set it meets: one event when its identifier passes the dedup
  test and it carries a token mint (for \<^verbatim>\<open>processNewPool\<close>: one that is not a known
  quote mint), nothing otherwise.
\<close>

definition eventsOnce :: "'p bot \<Rightarrow> bool" where
  "eventsOnce st = (distinct (map fst (events st)) \<and> fst ` set (events st) \<subseteq> seenPools st)"

definition emits_bot :: "pool \<Rightarrow> string set \<Rightarrow> (string \<times> string) list" where
  "emits_bot p seen =
    (case markSeen (poolIdOf_bot p) seen of
       None \<Rightarrow> []
     | Some (i, seen') \<Rightarrow>
        (case tokenMintOf_bot p of
           None \<Rightarrow> []
         | Some tm \<Rightarrow> if tm = [] then [] else [(i, tm)]))"

definition emits_part :: "pool \<Rightarrow> string set \<Rightarrow> (string \<times> string) list" where
  "emits_part p seen =
    (case markSeen (poolIdOf_part p) seen of
       None \<Rightarrow> []
     | Some (i, seen') \<Rightarrow>
        (case baseMintOf_part p of
           None \<Rightarrow> []
         | Some bm \<Rightarrow> if bm = [] \<or> bm \<in> set knownMints then [] else [(i, bm)]))"

definition seenAfter :: "string option \<Rightarrow> string set \<Rightarrow> string set" where
  "seenAfter poolId seen = (case markSeen poolId seen of None \<Rightarrow> seen | Some (i, seen') \<Rightarrow> seen')"

section \<open>The log-subscription bot of \<^verbatim>\<open>src/unnamed/part_000\<close>\<close>

text \<open>
  A position object as \<^verbatim>\<open>detectNewPools\<close> creates it. \<^verbatim>\<open>monitorPosition\<close> reads
  \<^verbatim>\<open>positions[tokenMint]\<close> once, before its loop, and keeps the reference: the objects
  live in a store, the \<^verbatim>\<open>positions\<close> object maps a mint to the address of its
  object, and a monitor task holds the address it read.
\<close>

record wsPosition =
  buy_price :: double
  amount :: double
  sold_25 :: bool
  sold_50 :: bool

record wsConfig =
  BUY_AMOUNT_SOL :: double
  STOP_LOSS_PCT :: double

text \<open>
  The state: the store of position objects with its next free address, the
  \<^verbatim>\<open>positions\<close> object, the monitor tasks started (mint and captured object), the calls
  of \<^verbatim>\<open>swapSell\<close> (mint, \<^verbatim>\<open>sellPct\<close> and the amount a quote was asked for, if it got
  that far) and the console lines about positions.
\<close>

record wsState =
  objects :: "nat \<Rightarrow> wsPosition option"
  fresh :: nat
  registry :: "string \<Rightarrow> nat option"
  monitors :: "(string \<times> nat) list"
  sellLog :: "(string \<times> double \<times> double option) list"
  console :: "string list"

text \<open>
  \<^verbatim>\<open>getPrice\<close>: the request may throw (nothing catches it); the result is
  \<^verbatim>\<open>resp.data.data?.value || 0\<close>, so an absent or falsy value counts as the price 0.
\<close>

definition getPrice :: "double option fetch \<Rightarrow> double fetch" where
  "getPrice resp =
    (case resp of
       Throws e \<Rightarrow> Throws e
     | Returned v \<Rightarrow>
         Returned (case v of None \<Rightarrow> Finite 0 | Some x \<Rightarrow> if truthyD x then x else Finite 0))"

text \<open>
  What the network gives during one call of \<^verbatim>\<open>swapSell\<close> (or \<^verbatim>\<open>swapBuy\<close>, which
  reads no balance): the associated token address, the balance response (\<open>None\<close>
  when it has no \<^verbatim>\<open>value\<close>, else its amount, the decimal string of an unsigned
  integer), whether the quote response carries an \<^verbatim>\<open>error\<close>, whether the swap response
  carries a \<^verbatim>\<open>swapTransaction\<close>, and the signing and sending of the transaction. Each
  of them may throw, and neither function catches.
\<close>

record swapEnv =
  s_ata :: "unit fetch"
  s_balance :: "nat option fetch"
  s_quoteError :: "bool fetch"
  s_swapTransaction :: "bool fetch"
  s_send :: "unit fetch"

text \<open>
  \<^verbatim>\<open>swapSell\<close> returns \<^verbatim>\<open>false\<close> on a failed step, \<^verbatim>\<open>true\<close> once the transaction is
  confirmed, or throws. The second component is the amount it asked a quote for, when it
  got that far: \<^verbatim>\<open>Math.floor(balResp.value.amount * sellPct)\<close>, where the product
  converts the amount string to a number first.
\<close>

definition amountTokens :: "nat \<Rightarrow> double \<Rightarrow> double" where
  "amountTokens bal sellPct = ffloor (fmul (Number bal) sellPct)"

definition swapSell :: "swapEnv \<Rightarrow> double \<Rightarrow> bool fetch \<times> double option" where
  "swapSell env sellPct =
    (case s_ata env of
       Throws e \<Rightarrow> (Throws e, None)
     | Returned u \<Rightarrow>
      (case s_balance env of
         Throws e \<Rightarrow> (Throws e, None)
       | Returned None \<Rightarrow> (Returned False, None)
       | Returned (Some bal) \<Rightarrow>
          let asked = Some (amountTokens bal sellPct)
          in (case s_quoteError env of
                Throws e \<Rightarrow> (Throws e, asked)
              | Returned quoteError \<Rightarrow>
                 if quoteError then (Returned False, asked)
                 else
                  (case s_swapTransaction env of
                     Throws e \<Rightarrow> (Throws e, asked)
                   | Returned hasTransaction \<Rightarrow>
                      if hasTransaction then
                        (case s_send env of
                           Throws e \<Rightarrow> (Throws e, asked)
                         | Returned u' \<Rightarrow> (Returned True, asked))
                      else (Returned False, asked)))))"

definition swapBuy :: "swapEnv \<Rightarrow> bool fetch" where
  "swapBuy env =
    (case s_quoteError env of
       Throws e \<Rightarrow> Throws e
     | Returned quoteError \<Rightarrow>
        if quoteError then Returned False
        else
         (case s_swapTransaction env of
            Throws e \<Rightarrow> Throws e
          | Returned hasTransaction \<Rightarrow>
             if hasTransaction then
               (case s_send env of
                  Throws e \<Rightarrow> Throws e
                | Returned u \<Rightarrow> Returned True)
             else Returned False))"

text \<open>
  One pass through the body of the \<^verbatim>\<open>while (true)\<close> loop of \<^verbatim>\<open>monitorPosition\<close>,
  for the monitor of \<open>tokenMint\<close> that holds the object at \<open>ref\<close>. The pass ends
  at the \<^verbatim>\<open>continue\<close> or at the end of the body (\<open>Continue\<close>), at the \<^verbatim>\<open>break\<close>
  (\<open>Break\<close>), or with an exception that nothing catches, which ends the task
  (\<open>Rejected\<close>). The value \<^verbatim>\<open>swapSell\<close> returns is not read. The three conditions
  are those of the source: \<^verbatim>\<open>multiplier >= 3\<close>, \<^verbatim>\<open>multiplier >= 2\<close> and
  \<^verbatim>\<open>multiplier <= (1 - variables.STOP_LOSS_PCT / 100)\<close>.
\<close>

datatype iterResult = Continue | Break | Rejected string

definition callSwapSell ::
  "swapEnv \<Rightarrow> string \<Rightarrow> double \<Rightarrow> wsState \<Rightarrow> bool fetch \<times> wsState" where
  "callSwapSell env tokenMint sellPct st =
    (let r = swapSell env sellPct
     in (fst r, st\<lparr>sellLog := sellLog st @ [(tokenMint, sellPct, snd r)]\<rparr>))"

definition stage50 :: "double \<Rightarrow> wsPosition \<Rightarrow> bool" where
  "stage50 multiplier pos = (fle (Finite 3) multiplier \<and> \<not> sold_50 pos)"

definition stage25 :: "double \<Rightarrow> wsPosition \<Rightarrow> bool" where
  "stage25 multiplier pos = (fle (Finite 2) multiplier \<and> \<not> sold_25 pos)"

definition stopLoss :: "wsConfig \<Rightarrow> double \<Rightarrow> bool" where
  "stopLoss cfg multiplier =
     fle multiplier (fsub (Finite 1) (fdiv (STOP_LOSS_PCT cfg) (Finite 100)))"

definition monitorIter ::
  "wsConfig \<Rightarrow> double option fetch \<Rightarrow> swapEnv \<Rightarrow> string \<Rightarrow> nat \<Rightarrow> wsState
     \<Rightarrow> iterResult \<times> wsState" where
  "monitorIter cfg priceResp env tokenMint ref st =
    (case getPrice priceResp of
       Throws e \<Rightarrow> (Rejected e, st)
     | Returned currentPrice \<Rightarrow>
        if feq currentPrice (Finite 0) then (Continue, st)
        else
         (case objects st ref of
            None \<Rightarrow> (Rejected ''TypeError'', st)
          | Some pos \<Rightarrow>
             let multiplier = fdiv currentPrice (buy_price pos)
             in if stage50 multiplier pos then
                  (case callSwapSell env tokenMint (Finite (1/2)) st of
                     (Throws e, st1) \<Rightarrow> (Rejected e, st1)
                   | (Returned sold, st1) \<Rightarrow>
                       (Continue, st1\<lparr>objects := (objects st1)(ref \<mapsto> pos\<lparr>sold_50 := True\<rparr>)\<rparr>))
                else if stage25 multiplier pos then
                  (case callSwapSell env tokenMint (Finite (1/4)) st of
                     (Throws e, st1) \<Rightarrow> (Rejected e, st1)
                   | (Returned sold, st1) \<Rightarrow>
                       (Continue, st1\<lparr>objects := (objects st1)(ref \<mapsto> pos\<lparr>sold_25 := True\<rparr>)\<rparr>))
                else if stopLoss cfg multiplier then
                  (case callSwapSell env tokenMint (Finite 1) st of
                     (Throws e, st1) \<Rightarrow> (Rejected e, st1)
                   | (Returned sold, st1) \<Rightarrow>
                       (Break, st1\<lparr>registry := (registry st1)(tokenMint := None),
                                  console := console st1 @
                                    [''Stop loss triggered for '' @ tokenMint]\<rparr>))
                else (Continue, st)))"

text \<open>
  The loop of \<^verbatim>\<open>monitorPosition\<close>, run on what the network gives in its successive
  passes. The source loops forever; on a finite sequence of passes the task is still
  running at its end (\<open>Running\<close>) unless a pass left the loop (\<open>Finished\<close>) or
  threw (\<open>Died\<close>).
\<close>

datatype taskResult = Running | Finished | Died string

fun monitorPosition ::
  "wsConfig \<Rightarrow> (double option fetch \<times> swapEnv) list \<Rightarrow> string \<Rightarrow> nat \<Rightarrow> wsState
     \<Rightarrow> taskResult \<times> wsState" where
  "monitorPosition cfg [] tokenMint ref st = (Running, st)"
| "monitorPosition cfg (pass # passes) tokenMint ref st =
    (case monitorIter cfg (fst pass) (snd pass) tokenMint ref st of
       (Continue, st') \<Rightarrow> monitorPosition cfg passes tokenMint ref st'
     | (Break, st') \<Rightarrow> (Finished, st')
     | (Rejected e, st') \<Rightarrow> (Died e, st'))"

text \<open>
  The part of the message handler of \<^verbatim>\<open>detectNewPools\<close> that follows the parsing of a
  log line into a mint: the buy, the price, the new position object and the start of
  its monitor. \<^verbatim>\<open>positions[mint] = {...}\<close> is a plain assignment and
  \<^verbatim>\<open>monitorPosition(mint)\<close> is called right after it, with no test for a present key.
  An exception of \<^verbatim>\<open>swapBuy\<close> or \<^verbatim>\<open>getPrice\<close> ends the handler.
\<close>

definition openPosition :: "wsConfig \<Rightarrow> string \<Rightarrow> double \<Rightarrow> wsState \<Rightarrow> wsState" where
  "openPosition cfg tokenMint buyPrice' st =
    st\<lparr>objects := (objects st)(fresh st \<mapsto>
           \<lparr>buy_price = buyPrice', amount = fdiv (BUY_AMOUNT_SOL cfg) buyPrice',
            sold_25 = False, sold_50 = False\<rparr>),
       fresh := Suc (fresh st),
       registry := (registry st)(tokenMint \<mapsto> fresh st),
       monitors := monitors st @ [(tokenMint, fresh st)]\<rparr>"

definition onNewPool ::
  "wsConfig \<Rightarrow> swapEnv \<Rightarrow> double option fetch \<Rightarrow> string \<Rightarrow> wsState \<Rightarrow> wsState" where
  "onNewPool cfg buyEnv priceResp tokenMint st =
    (case swapBuy buyEnv of
       Throws e \<Rightarrow> st
     | Returned success \<Rightarrow>
        if success then
          (case getPrice priceResp of
             Throws e \<Rightarrow> st
           | Returned buyPrice' \<Rightarrow>
              if flt (Finite 0) buyPrice' then openPosition cfg tokenMint buyPrice' st else st)
        else st)"

definition wsInit :: wsState where
  "wsInit = \<lparr>objects = Map.empty, fresh = 0, registry = Map.empty, monitors = [],
            sellLog = [], console = []\<rparr>"

text \<open>A network on which every step of a swap succeeds, for concrete inputs.\<close>

definition swapOk :: "nat \<Rightarrow> swapEnv" where
  "swapOk bal = \<lparr>s_ata = Returned (), s_balance = Returned (Some bal),
     s_quoteError = Returned False, s_swapTransaction = Returned True, s_send = Returned ()\<rparr>"

section \<open>Concrete inputs\<close>

text \<open>
  A configuration with a stop loss of 20 percent, the state after the position for the
  mint \<open>M\<close> has been opened at the price 1, a network whose quote request reports
  an error (so that \<^verbatim>\<open>swapSell\<close> returns \<^verbatim>\<open>false\<close>), the states after one and two
  passes of the monitor at the price 3 with working swaps, the state after a second pool
  event for \<open>M\<close>, and the state after a pass at the price 1/2.
\<close>

definition wsCfg :: wsConfig where
  "wsCfg = \<lparr>BUY_AMOUNT_SOL = Finite (1/2), STOP_LOSS_PCT = Finite 20\<rparr>"

definition wsOpened :: wsState where
  "wsOpened = onNewPool wsCfg (swapOk 0) (Returned (Some (Finite 1))) ''M'' wsInit"

definition quoteFails :: swapEnv where
  "quoteFails = (swapOk 1000)\<lparr>s_quoteError := Returned True\<rparr>"

definition wsAfterOne :: wsState where
  "wsAfterOne =
     snd (monitorIter wsCfg (Returned (Some (Finite 3))) (swapOk 1000) ''M'' 0 wsOpened)"

definition wsAfterTwo :: wsState where
  "wsAfterTwo =
     snd (monitorIter wsCfg (Returned (Some (Finite 3))) (swapOk 500) ''M'' 0 wsAfterOne)"

definition wsReopened :: wsState where
  "wsReopened = onNewPool wsCfg (swapOk 0) (Returned (Some (Finite 2))) ''M'' wsAfterOne"

definition wsStopped :: wsState where
  "wsStopped =
     snd (monitorIter wsCfg (Returned (Some (Finite (1/2)))) (swapOk 1000) ''M'' 0 wsOpened)"

text \<open>
  For the polling bots: a configuration, a network on which everything succeeds (a mint
  with no authorities, a supply of 1000 and 6 decimals, one holder with 100), a pool with
  the identifier \<open>i\<close> and the base mint \<open>m\<close>, a pool with an identifier and no
  mint, and a firing of the interval callback whose listing holds one pool and on which
  every sell would succeed.
\<close>

definition cfgA :: config where
  "cfgA = \<lparr>BUY_USD = Finite 5, TARGET_MULTIPLIER = Finite 2, QUOTE_MINT = ''USDC''\<rparr>"

definition envOk :: "real \<Rightarrow> string \<Rightarrow> nat \<Rightarrow> poolEnv" where
  "envOk price sig now =
    \<lparr>e_publicKey = Returned (), e_getMint = Returned (mintA 1000 6),
     e_largest = Returned (LargestValue [100]), e_owner = Returned 1,
     e_price = Some (Finite price),
     e_quote = Some \<lparr>outAmount = Finite 5000000\<rparr>, e_signature = Some sig, e_now = now\<rparr>"

definition poolOf :: "string \<Rightarrow> string \<Rightarrow> pool" where
  "poolOf i m = emptyPool\<lparr>pool_id := Some i, baseMint := Some m,
                          tokenA_price := Some (Finite 1), tokenB_price := Some (Finite 1)\<rparr>"

definition poolNoMint :: "string \<Rightarrow> pool" where
  "poolNoMint i = emptyPool\<lparr>pool_id := Some i\<rparr>"

definition tickA :: tick where
  "tickA = \<lparr>listing = [(poolOf ''P1'' ''M'', envOk 2 ''sig1'' 1000)],
            sellResults = (\<lambda>m. Some ''sold'')\<rparr>"

definition botB1 :: "positionB bot" where
  "botB1 = processNewPool cfgA (envOk 2 ''sig1'' 1000) (poolOf ''P1'' ''M'') emptyBot"

definition botB2 :: "positionB bot" where
  "botB2 = processNewPool cfgA (envOk 4 ''sig2'' 2000) (poolOf ''P2'' ''M'') botB1"

section \<open>Facts about the arithmetic\<close>

lemma expo_numeral:
  "expo (numeral k) x =
     (if 2 \<le> x then expo (pred_numeral k) (x / 2) + 1
      else if x < 1 then expo (pred_numeral k) (x * 2) - 1 else 0)"
  by (simp add: numeral_eq_Suc)

lemmas dbl_eval =
  toDouble_def roundPos_def expo_numeral pow2_def rhe_def Let_def Number_def pow10_def
  fsub_def fle_def falsyD_def

lemma pow2_powi: "pow2 k = 2 powi k"
  by (simp add: pow2_def power_int_def field_simps)

lemma pow2_pos: "0 < pow2 k"
  by (simp add: pow2_powi)

lemma pow2_add: "pow2 (a + b) = pow2 a * pow2 b"
  by (simp add: pow2_powi power_int_add)

lemma pow2_mono: "a \<le> b \<Longrightarrow> pow2 a \<le> pow2 b"
  by (simp add: pow2_powi power_int_increasing)

lemma pow2_0: "pow2 0 = 1" and pow2_1: "pow2 1 = 2"
  by (simp_all add: pow2_def)

lemma expo_ge1: "1 \<le> x \<Longrightarrow> 0 \<le> expo n x \<and> pow2 (expo n x) \<le> x"
proof (induction n arbitrary: x)
  case 0
  then show ?case by (simp add: pow2_0)
next
  case (Suc n)
  show ?case
  proof (cases "2 \<le> x")
    case True
    then have "1 \<le> x / 2" by simp
    from Suc.IH [OF this] have ih: "0 \<le> expo n (x / 2)" "pow2 (expo n (x / 2)) \<le> x / 2"
      by simp_all
    have "pow2 (expo n (x / 2) + 1) = pow2 (expo n (x / 2)) * 2"
      by (simp add: pow2_add pow2_1)
    with ih True show ?thesis by simp
  next
    case False
    with Suc.prems show ?thesis by (simp add: pow2_0)
  qed
qed

lemma rhe_ge_floor: "\<lfloor>x\<rfloor> \<le> rhe x"
  by (simp add: rhe_def Let_def)

lemma rhe_of_int: "rhe (of_int m) = m"
  by (simp add: rhe_def)

lemma roundPos_ge1:
  assumes "1 \<le> x"
  shows "1 \<le> roundPos x"
proof -
  let ?e = "expo 1100 x"
  from expo_ge1 [OF assms, of 1100] have e: "0 \<le> ?e" "pow2 ?e \<le> x" by simp_all
  then have k: "max (?e - 52) (- 1074) = ?e - 52" by simp
  have split: "pow2 ?e = pow2 (?e - 52) * pow2 52"
    using pow2_add [of "?e - 52" 52] by simp
  have p52: "pow2 52 = 2 ^ 52" by (simp add: pow2_def)
  have "pow2 52 \<le> x / pow2 (?e - 52)"
    using e(2) split pow2_pos [of "?e - 52"] by (simp add: field_simps)
  then have "(2::int) ^ 52 \<le> \<lfloor>x / pow2 (?e - 52)\<rfloor>"
    unfolding p52 by (simp add: le_floor_iff)
  then have "(2::int) ^ 52 \<le> rhe (x / pow2 (?e - 52))"
    using rhe_ge_floor [of "x / pow2 (?e - 52)"] by linarith
  then have "(2::real) ^ 52 \<le> of_int (rhe (x / pow2 (?e - 52)))"
    by (metis of_int_le_iff of_int_numeral of_int_power)
  then have "pow2 52 * pow2 (?e - 52) \<le> of_int (rhe (x / pow2 (?e - 52))) * pow2 (?e - 52)"
    unfolding p52 using pow2_pos [of "?e - 52"] by simp
  moreover have "1 \<le> pow2 ?e" using pow2_mono [OF e(1)] by (simp add: pow2_0)
  ultimately show ?thesis
    using split by (simp add: roundPos_def Let_def k mult.commute)
qed

lemma Number_0: "Number 0 = Finite 0"
  by (simp add: Number_def toDouble_def)

lemma Number_pos_cases:
  assumes "0 < n"
  shows "Number n = PosInf \<or> (\<exists>r. Number n = Finite r \<and> 1 \<le> r)"
proof -
  have "1 \<le> real n" using assms by simp
  from roundPos_ge1 [OF this] show ?thesis
    using assms by (simp add: Number_def toDouble_def Let_def)
qed

lemma Number_pos:
  "0 < n \<Longrightarrow> flt (Finite 0) (Number n) \<and> \<not> feq (Number n) (Finite 0) \<and> truthyD (Number n)"
  using Number_pos_cases [of n] by auto

lemma Number_zero_iff: "feq (Number n) (Finite 0) \<longleftrightarrow> n = 0"
  using Number_pos [of n] by (cases "n = 0") (simp_all add: Number_0)

lemma Number_positive_iff: "flt (Finite 0) (Number n) \<longleftrightarrow> 0 < n"
  using Number_pos [of n] by (cases "n = 0") (simp_all add: Number_0)

text \<open>An unsigned integer below \<open>2\<^sup>5\<^sup>3\<close> is read exactly.\<close>

lemma toDouble_nat_exact:
  assumes "n < 2 ^ 53"
  shows "toDouble (real n) = Finite (real n)"
proof (cases "n = 0")
  case True
  then show ?thesis by (simp add: toDouble_def)
next
  case False
  let ?x = "real n"
  let ?e = "expo 1100 ?x"
  have x1: "1 \<le> ?x" using False by simp
  from expo_ge1 [OF x1, of 1100] have e: "0 \<le> ?e" "pow2 ?e \<le> ?x" by simp_all
  have xlt: "?x < pow2 53"
    using assms by (simp add: pow2_def)
  have e52: "?e \<le> 52"
  proof (rule ccontr)
    assume "\<not> ?e \<le> 52"
    then have "53 \<le> ?e" by simp
    from pow2_mono [OF this] e(2) xlt show False by simp
  qed
  have k: "max (?e - 52) (- 1074) = ?e - 52" using e(1) by simp
  have inv: "pow2 (?e - 52) * pow2 (52 - ?e) = 1"
    using pow2_add [of "?e - 52" "52 - ?e"] by (simp add: pow2_0)
  have p: "pow2 (52 - ?e) = of_int (2 ^ nat (52 - ?e))"
    using e52 by (simp add: pow2_def)
  have "?x / pow2 (?e - 52) = ?x * pow2 (52 - ?e)"
    using inv pow2_pos [of "?e - 52"] by (simp add: field_simps)
  also have "\<dots> = of_int (int n * 2 ^ nat (52 - ?e))"
    unfolding p by simp
  finally have q: "?x / pow2 (?e - 52) = of_int (int n * 2 ^ nat (52 - ?e))" .
  have "of_int (rhe (?x / pow2 (?e - 52))) * pow2 (?e - 52) = ?x * pow2 (52 - ?e) * pow2 (?e - 52)"
    unfolding q rhe_of_int p by simp
  also have "\<dots> = ?x" using inv by (simp add: mult.assoc mult.commute)
  finally have r: "roundPos ?x = ?x" by (simp add: roundPos_def Let_def k)
  have "(2::real) ^ 53 \<le> 2 ^ 1024" by simp
  then have "?x < 2 ^ 1024"
    using xlt by (simp add: pow2_def)
  with r x1 False show ?thesis by (simp add: toDouble_def Let_def)
qed

lemma Number_exact: "n < 2 ^ 53 \<Longrightarrow> Number n = Finite (real n)"
  by (simp add: Number_def toDouble_nat_exact)

text \<open>
  Known results of binary64 arithmetic, as checks of the definitions: \<^verbatim>\<open>0.3 / 0.1\<close> is
  \<^verbatim>\<open>2.9999999999999996\<close>, below 3; \<^verbatim>\<open>0.28 / 0.35\<close> is \<^verbatim>\<open>0.8000000000000002\<close>, above
  \<^verbatim>\<open>1 - 20 / 100\<close>; \<^verbatim>\<open>Number("9007199254740993")\<close> is \<^verbatim>\<open>9007199254740992\<close>;
  \<^verbatim>\<open>Math.floor(4.1 * 1e9)\<close> is \<^verbatim>\<open>4099999999\<close>.
\<close>

lemma binary64_checks:
  "fdiv (toDouble (3/10)) (toDouble (1/10)) = Finite (6755399441055743 / 2251799813685248)"
  "flt (fdiv (toDouble (3/10)) (toDouble (1/10))) (Finite 3)"
  "\<not> fle (fdiv (toDouble (28/100)) (toDouble (35/100)))
         (fsub (Finite 1) (fdiv (Finite 20) (Finite 100)))"
  "Number 9007199254740993 = Finite 9007199254740992"
  "ffloor (fmul (toDouble (41/10)) (pow10 9)) = Finite 4099999999"
  by (simp_all add: dbl_eval)

text \<open>The values the concrete inputs of this development compute.\<close>

lemma toDouble_numeral:
  "numeral k < (2::nat) ^ 53 \<Longrightarrow> toDouble (numeral k) = Finite (numeral k)"
  using toDouble_nat_exact [of "numeral k"] by simp

lemma toDouble_examples:
  "toDouble 1 = Finite 1"
  "toDouble (1/2) = Finite (1/2)" "toDouble (1/4) = Finite (1/4)"
  "toDouble (5/2) = Finite (5/2)" "toDouble (5/4) = Finite (5/4)"
  by (simp_all add: dbl_eval)

lemma Number_examples:
  "Number 100 = Finite 100" "Number 500 = Finite 500" "Number 1000 = Finite 1000"
  by (simp_all add: Number_exact)

lemma pow10_examples: "pow10 6 = Finite 1000000" "pow10 9 = Finite 1000000000"
  by (simp_all add: pow10_def toDouble_numeral)

lemma percent_small:
  "percentOf (totalTop 3 [100]) (Finite 1000) = Finite 10"
  "percentOf (totalTop 5 [100]) (Finite 1000) = Finite 10"
  by (simp_all add: percentOf_def totalTop_def dbl_eval)

lemma rugChecks_envOk:
  "rugChecks (Returned ()) (Returned (mintA 1000 6)) (Returned (LargestValue [100]))
     = \<lparr>safe = True, reason = None, topPercent = None, details = None, error = None\<rparr>"
  by (simp add: rugChecks_def mintA_def Number_examples percent_small Let_def)

lemma performRugChecks_envOk:
  "performRugChecks (Returned ()) (Returned (mintA 1000 6)) (Returned (LargestValue [100]))
       (Returned (Suc n))
     = (\<lparr>safe = True, reason = None, topPercent = None,
         details = Some \<lparr>d_supply = Finite 1000, d_decimals = 6, d_topPercent = Finite 10\<rparr>,
         error = None\<rparr>, [])"
  by (simp add: performRugChecks_def mintA_def Number_examples percent_small Let_def
        lpBurnedCheck_def)

section \<open>Properties of the risk evaluator\<close>

text \<open>
  C6. A mint whose mint authority is not null is unsafe with the reason
  \<^verbatim>\<open>mintAuthorityPresent\<close>, in both evaluators, whatever the holder fetch and the
  token-account fetch give (or fail to give) and whatever the other fields of the mint
  are.
\<close>

theorem mint_authority_present_unsafe:
  assumes "mintAuthority mi \<noteq> None"
  shows "rugChecks (Returned ()) (Returned mi) largest = unsafe ''mintAuthorityPresent''
       \<and> fst (performRugChecks (Returned ()) (Returned mi) largest owner)
           = unsafe ''mintAuthorityPresent''
       \<and> safe (unsafe ''mintAuthorityPresent'') = False
       \<and> reason (unsafe ''mintAuthorityPresent'') = Some ''mintAuthorityPresent''"
  using assms by (simp add: rugChecks_def performRugChecks_def unsafe_def)

theorem mint_authority_present_unsafe_witness:
  "rugChecks (Returned ())
      (Returned \<lparr>mintAuthority = Some ''Auth'', freezeAuthority = None,
                 mint_supply = 1000, decimals = 6\<rparr>)
      (Returned (LargestValue [1, 1, 1])) = unsafe ''mintAuthorityPresent''
   \<and> fst (performRugChecks (Returned ())
      (Returned \<lparr>mintAuthority = Some ''Auth'', freezeAuthority = None,
                 mint_supply = 1000, decimals = 6\<rparr>)
      (Returned (LargestValue [1, 1, 1])) (Returned 1)) = unsafe ''mintAuthorityPresent''"
  using mint_authority_present_unsafe
    [of "\<lparr>mintAuthority = Some ''Auth'', freezeAuthority = None,
          mint_supply = 1000, decimals = 6\<rparr>"
        "Returned (LargestValue [1, 1, 1])" "Returned 1"]
  by simp

text \<open>
  C7, as stated, fails on both evaluators: they compare the percentage as computed in
  binary64, and \<^verbatim>\<open>Number\<close> rounds an amount above \<open>2\<^sup>5\<^sup>3\<close>. With a supply of
  \<open>2\<^sup>6\<^sup>0\<close> and one holder of \<open>2\<^sup>5\<^sup>9 + 1\<close> the exact share is above 50 percent, the
  computed percentage is exactly 50 and \<^verbatim>\<open>rugChecks\<close> returns a safe verdict; with a
  supply of \<open>10\<^sup>1\<^sup>8\<close> and one holder of \<open>7 \<sqdot> 10\<^sup>1\<^sup>7 + 1\<close> the exact share is above 70
  percent, the computed percentage is exactly 70 and \<^verbatim>\<open>performRugChecks\<close> returns a
  safe verdict.
\<close>

theorem exact_share_above_threshold_safe:
  "50 < exactShare 3 [576460752303423489] 1152921504606846976
   \<and> percentOf (totalTop 3 [576460752303423489]) (Number 1152921504606846976) = Finite 50
   \<and> safe (rugChecks (Returned ()) (Returned (mintA 1152921504606846976 6))
        (Returned (LargestValue [576460752303423489]))) = True
   \<and> 70 < exactShare 5 [700000000000000001] 1000000000000000000
   \<and> percentOf (totalTop 5 [700000000000000001]) (Number 1000000000000000000) = Finite 70
   \<and> safe (fst (performRugChecks (Returned ()) (Returned (mintA 1000000000000000000 6))
        (Returned (LargestValue [700000000000000001])) (Returned 1))) = True"
  by (simp add: exactShare_def rugChecks_def performRugChecks_def mintA_def percentOf_def
        totalTop_def dbl_eval)

text \<open>
  C7, amended. Once the earlier checks have passed (no mint authority, a positive
  supply, a non-empty list of largest accounts and, in \<^verbatim>\<open>performRugChecks\<close>, at most 18
  decimals), the evaluator is unsafe with the reason \<^verbatim>\<open>concentrated_holders\<close>, the
  computed percentage attached, exactly when the percentage it computes (the amounts of
  the top 3, or top 5, read with \<^verbatim>\<open>Number\<close> and added, divided by the supply and
  multiplied by 100, each step rounded to binary64) is strictly above its threshold of
  50, or 70; with a computed percentage at or below the threshold, so also one exactly
  at it, the reason is never \<^verbatim>\<open>concentrated_holders\<close>.
\<close>

theorem holder_concentration_strict_threshold:
  assumes "mintAuthority mi = None" and "accounts \<noteq> []" and "0 < mint_supply mi"
  shows "(flt (Finite 50) (percentOf (totalTop 3 accounts) (Number (mint_supply mi))) \<longrightarrow>
            rugChecks (Returned ()) (Returned mi) (Returned (LargestValue accounts))
              = (unsafe ''concentrated_holders'')
                  \<lparr>topPercent :=
                     Some (percentOf (totalTop 3 accounts) (Number (mint_supply mi)))\<rparr>)
       \<and> (\<not> flt (Finite 50) (percentOf (totalTop 3 accounts) (Number (mint_supply mi))) \<longrightarrow>
            reason (rugChecks (Returned ()) (Returned mi) (Returned (LargestValue accounts)))
              \<noteq> Some ''concentrated_holders'')
       \<and> (flt (Finite 70) (percentOf (totalTop 5 accounts) (Number (mint_supply mi)))
            \<and> decimals mi \<le> 18 \<longrightarrow>
            fst (performRugChecks (Returned ()) (Returned mi)
                   (Returned (LargestValue accounts)) owner)
              = (unsafe ''concentrated_holders'')
                  \<lparr>topPercent :=
                     Some (percentOf (totalTop 5 accounts) (Number (mint_supply mi)))\<rparr>)
       \<and> (\<not> flt (Finite 70) (percentOf (totalTop 5 accounts) (Number (mint_supply mi))) \<longrightarrow>
            reason (fst (performRugChecks (Returned ()) (Returned mi)
                   (Returned (LargestValue accounts)) owner))
              \<noteq> Some ''concentrated_holders'')"
  using assms Number_pos [of "mint_supply mi"]
  by (simp add: rugChecks_def performRugChecks_def unsafe_def Let_def)

text \<open>
  The witness takes the example of the specification (supply 1,000,000, top three
  600,000: 60 percent) and a percentage of exactly 50 for \<^verbatim>\<open>rugChecks\<close>, and
  percentages of 80 and of exactly 70 for \<^verbatim>\<open>performRugChecks\<close>.
\<close>

lemma percent_examples:
  "percentOf (totalTop 3 [300000, 200000, 100000, 7]) (Number 1000000) = Finite 60"
  "percentOf (totalTop 3 [300000, 100000, 100000, 7]) (Number 1000000) = Finite 50"
  "percentOf (totalTop 5 [300000, 200000, 100000, 100000, 100000, 7]) (Number 1000000)
     = Finite 80"
  "percentOf (totalTop 5 [300000, 200000, 100000, 100000]) (Number 1000000) = Finite 70"
  by (simp_all add: percentOf_def totalTop_def dbl_eval)

theorem holder_concentration_strict_threshold_witness:
  "rugChecks (Returned ()) (Returned (mintA 1000000 6))
       (Returned (LargestValue [300000, 200000, 100000, 7]))
     = (unsafe ''concentrated_holders'')\<lparr>topPercent := Some (Finite 60)\<rparr>
   \<and> reason (rugChecks (Returned ()) (Returned (mintA 1000000 6))
       (Returned (LargestValue [300000, 100000, 100000, 7]))) \<noteq> Some ''concentrated_holders''
   \<and> fst (performRugChecks (Returned ()) (Returned (mintA 1000000 6))
       (Returned (LargestValue [300000, 200000, 100000, 100000, 100000, 7])) (Returned 1))
     = (unsafe ''concentrated_holders'')\<lparr>topPercent := Some (Finite 80)\<rparr>
   \<and> reason (fst (performRugChecks (Returned ()) (Returned (mintA 1000000 6))
       (Returned (LargestValue [300000, 200000, 100000, 100000])) (Returned 1)))
     \<noteq> Some ''concentrated_holders''"
  using holder_concentration_strict_threshold
      [of "mintA 1000000 6" "[300000, 200000, 100000, 7]" "Returned 1"]
    holder_concentration_strict_threshold
      [of "mintA 1000000 6" "[300000, 100000, 100000, 7]" "Returned 1"]
    holder_concentration_strict_threshold
      [of "mintA 1000000 6" "[300000, 200000, 100000, 100000, 100000, 7]" "Returned 1"]
    holder_concentration_strict_threshold
      [of "mintA 1000000 6" "[300000, 200000, 100000, 100000]" "Returned 1"]
  by (simp add: mintA_def percent_examples)

text \<open>
  C5, as stated, fails on \<^verbatim>\<open>rugChecks\<close> of \<^verbatim>\<open>src/bot.js\<close>, whose step 2 is the
  holder concentration and whose step 3 is the decimals check: a mint with 10 decimals
  (above its bound of 9) whose single largest account holds 96 of a supply of 128 is
  rejected for \<^verbatim>\<open>concentrated_holders\<close>, not for the supply-sanity reason.
\<close>

theorem rugChecks_decimals_after_concentration:
  "rugChecks (Returned ()) (Returned (mintA 128 10)) (Returned (LargestValue [96]))
     = (unsafe ''concentrated_holders'')\<lparr>topPercent := Some (Finite 75)\<rparr>"
  by (simp add: rugChecks_def mintA_def percentOf_def totalTop_def dbl_eval)

text \<open>
  C5, amended. \<^verbatim>\<open>performRugChecks\<close> checks in the order mint authority, supply sanity
  (a zero supply gives \<^verbatim>\<open>zero_supply\<close>, then more than 18 decimals give
  \<^verbatim>\<open>excessive_decimals\<close>), holder concentration, and returns at the first failing
  check: with no mint authority, a zero supply or out-of-bound decimals give the
  supply-sanity reason whatever the holder fetch gives. \<^verbatim>\<open>rugChecks\<close> checks the mint
  authority, then the holder concentration, then the decimals: with a positive supply,
  more than 9 decimals give \<^verbatim>\<open>weird_mint\<close> only when the percentage it computes for
  the top three is not above 50, and \<^verbatim>\<open>concentrated_holders\<close> when it is.
\<close>

theorem risk_check_order:
  "(mintAuthority mi \<noteq> None \<longrightarrow>
      fst (performRugChecks (Returned ()) (Returned mi) largest owner)
        = unsafe ''mintAuthorityPresent''
      \<and> rugChecks (Returned ()) (Returned mi) largest = unsafe ''mintAuthorityPresent'')
   \<and> (mintAuthority mi = None \<and> mint_supply mi = 0 \<longrightarrow>
      fst (performRugChecks (Returned ()) (Returned mi) largest owner) = unsafe ''zero_supply'')
   \<and> (mintAuthority mi = None \<and> 0 < mint_supply mi \<and> 18 < decimals mi \<longrightarrow>
      fst (performRugChecks (Returned ()) (Returned mi) largest owner)
        = unsafe ''excessive_decimals'')
   \<and> (mintAuthority mi = None \<and> 0 < mint_supply mi \<and> 9 < decimals mi \<and> accounts \<noteq> [] \<longrightarrow>
      rugChecks (Returned ()) (Returned mi) (Returned (LargestValue accounts))
        = (if flt (Finite 50) (percentOf (totalTop 3 accounts) (Number (mint_supply mi)))
           then (unsafe ''concentrated_holders'')
                  \<lparr>topPercent :=
                     Some (percentOf (totalTop 3 accounts) (Number (mint_supply mi)))\<rparr>
           else unsafe ''weird_mint''))"
  using Number_pos [of "mint_supply mi"]
  by (simp add: rugChecks_def performRugChecks_def unsafe_def Let_def Number_0)

theorem risk_check_order_witness:
  "fst (performRugChecks (Returned ()) (Returned ((mintA 0 6)\<lparr>mintAuthority := Some ''A''\<rparr>))
        (Returned (LargestValue [1])) (Returned 1)) = unsafe ''mintAuthorityPresent''
   \<and> rugChecks (Returned ()) (Returned ((mintA 0 6)\<lparr>mintAuthority := Some ''A''\<rparr>))
        (Returned (LargestValue [1])) = unsafe ''mintAuthorityPresent''
   \<and> fst (performRugChecks (Returned ()) (Returned (mintA 0 6))
        (Returned (LargestValue [1])) (Returned 1)) = unsafe ''zero_supply''
   \<and> fst (performRugChecks (Returned ()) (Returned (mintA 128 19))
        (Returned (LargestValue [96])) (Returned 1)) = unsafe ''excessive_decimals''
   \<and> rugChecks (Returned ()) (Returned (mintA 128 10)) (Returned (LargestValue [32]))
        = unsafe ''weird_mint''"
proof -
  have p: "percentOf (totalTop 3 [32]) (Number 128) = Finite 25"
    by (simp add: percentOf_def totalTop_def dbl_eval)
  show ?thesis
    using risk_check_order [of "(mintA 0 6)\<lparr>mintAuthority := Some ''A''\<rparr>"
          "Returned (LargestValue [1])" "Returned 1" "[1]"]
      risk_check_order [of "mintA 0 6" "Returned (LargestValue [1])" "Returned 1" "[1]"]
      risk_check_order [of "mintA 128 19" "Returned (LargestValue [96])" "Returned 1" "[96]"]
      risk_check_order [of "mintA 128 10" "Returned (LargestValue [32])" "Returned 1" "[32]"]
    by (simp add: mintA_def p)
qed

text \<open>
  C8, as stated, fails on step 4 of \<^verbatim>\<open>performRugChecks\<close>: the token-account fetch
  stands in a \<^verbatim>\<open>try\<close> of its own whose \<^verbatim>\<open>catch\<close> only prints a warning, so a mint
  that passes the first three checks is reported safe when that fetch throws.
\<close>

theorem performRugChecks_owner_fetch_failure_safe:
  "safe (fst (performRugChecks (Returned ()) (Returned (mintA 1000 6))
       (Returned (LargestValue [100, 100, 100])) (Throws ''socket hang up''))) = True"
  by (simp add: performRugChecks_def mintA_def percentOf_def totalTop_def dbl_eval)

text \<open>
  C8, amended. When the construction of the key, the mint fetch or (where the checks
  reach it) the largest-accounts fetch throws, the evaluator returns an unsafe verdict
  with its catch-all reason (\<^verbatim>\<open>check_failed\<close> in \<^verbatim>\<open>performRugChecks\<close>, \<^verbatim>\<open>error\<close> in
  \<^verbatim>\<open>rugChecks\<close>); a largest-accounts response with no accounts gives an unsafe
  verdict with the reason \<^verbatim>\<open>no_token_accounts\<close> (\<^verbatim>\<open>noTokenAccounts\<close>); and the verdict
  of \<^verbatim>\<open>performRugChecks\<close> is the same whether its token-account fetch throws or
  returns.
\<close>

theorem fetch_failure_verdicts:
  "fst (performRugChecks (Throws e) getMint largest owner) = fst (check_failed e [])
   \<and> fst (performRugChecks (Returned ()) (Throws e) largest owner) = fst (check_failed e [])
   \<and> (mintAuthority mi = None \<and> 0 < mint_supply mi \<and> decimals mi \<le> 18 \<longrightarrow>
        fst (performRugChecks (Returned ()) (Returned mi) (Throws e) owner)
          = fst (check_failed e [])
      \<and> fst (performRugChecks (Returned ()) (Returned mi) (Returned LargestNoValue) owner)
          = unsafe ''no_token_accounts''
      \<and> fst (performRugChecks (Returned ()) (Returned mi) (Returned (LargestValue [])) owner)
          = unsafe ''no_token_accounts'')
   \<and> safe (fst (check_failed e [])) = False
   \<and> reason (fst (check_failed e [])) = Some ''check_failed''
   \<and> fst (performRugChecks publicKey getMint largest (Throws e))
        = fst (performRugChecks publicKey getMint largest (Returned n))
   \<and> rugChecks (Throws e) getMint largest = unsafe ''error''
   \<and> rugChecks (Returned ()) (Throws e) largest = unsafe ''error''
   \<and> (mintAuthority mi = None \<longrightarrow>
        rugChecks (Returned ()) (Returned mi) (Throws e) = unsafe ''error''
      \<and> rugChecks (Returned ()) (Returned mi) (Returned LargestNull) = unsafe ''noTokenAccounts''
      \<and> rugChecks (Returned ()) (Returned mi) (Returned LargestNoValue)
          = unsafe ''noTokenAccounts''
      \<and> rugChecks (Returned ()) (Returned mi) (Returned (LargestValue []))
          = unsafe ''noTokenAccounts'')"
  using Number_pos [of "mint_supply mi"]
  by (simp add: rugChecks_def performRugChecks_def check_failed_def unsafe_def Let_def
           split: fetch.splits largestAccounts.splits)

theorem fetch_failure_verdicts_witness:
  "fst (performRugChecks (Returned ()) (Returned (mintA 1000 6)) (Throws ''timeout'') (Returned 1))
     = fst (check_failed ''timeout'' [])
   \<and> fst (performRugChecks (Returned ()) (Returned (mintA 1000 6)) (Returned LargestNoValue)
       (Returned 1)) = unsafe ''no_token_accounts''
   \<and> rugChecks (Returned ()) (Returned (mintA 1000 6)) (Throws ''timeout'') = unsafe ''error''
   \<and> rugChecks (Returned ()) (Returned (mintA 1000 6)) (Returned LargestNull)
     = unsafe ''noTokenAccounts''"
  using fetch_failure_verdicts [of "''timeout''" "Returned (mintA 1000 6)"
     "Returned LargestNull" "Returned 1" "mintA 1000 6" "Returned ()" 1]
  by (simp add: mintA_def)

section \<open>The polling bots: seen-set, pool events and positions\<close>

lemma markSeen_Some:
  "markSeen v seen = Some (i, seen') \<longleftrightarrow> v = Some i \<and> i \<noteq> [] \<and> i \<notin> seen \<and> seen' = insert i seen"
  by (auto simp: markSeen_def split: option.splits)

lemma seenAfter_eq:
  "seenAfter v seen = (case v of None \<Rightarrow> seen | Some i \<Rightarrow> if i = [] then seen else insert i seen)"
  by (auto simp: seenAfter_def markSeen_def split: option.splits)

lemma seenAfter_mono: "seen \<subseteq> seenAfter v seen"
  by (auto simp: seenAfter_eq split: option.splits)

lemma processPool_seen:
  "seenPools (processPool cfg env p st) = seenAfter (poolIdOf_bot p) (seenPools st)"
  by (simp add: processPool_def seenAfter_def Let_def option.case_distrib [of seenPools]
       if_distrib [of seenPools] prod.case_distrib [of seenPools] option.case_eq_if split_beta)

lemma processNewPool_seen:
  "seenPools (processNewPool cfg env p st) = seenAfter (poolIdOf_part p) (seenPools st)"
  by (simp add: processNewPool_def seenAfter_def recordPosition_def Let_def
       option.case_distrib [of seenPools] if_distrib [of seenPools]
       prod.case_distrib [of seenPools] option.case_eq_if split_beta)

lemma processPool_events:
  "events (processPool cfg env p st) = events st @ emits_bot p (seenPools st)"
  by (simp add: processPool_def emits_bot_def Let_def option.case_distrib [of events]
       if_distrib [of events] prod.case_distrib [of events] split_beta
       split: option.split)

lemma processNewPool_events:
  "events (processNewPool cfg env p st) = events st @ emits_part p (seenPools st)"
  by (simp add: processNewPool_def emits_part_def recordPosition_def Let_def
       option.case_distrib [of events] if_distrib [of events] prod.case_distrib [of events]
       split_beta split: option.split)

lemma emits_cases:
  "emits_bot p seen = [] \<or>
     (\<exists>i m. emits_bot p seen = [(i, m)] \<and> i \<notin> seen \<and> i \<in> seenAfter (poolIdOf_bot p) seen)"
  "emits_part p seen = [] \<or>
     (\<exists>i m. emits_part p seen = [(i, m)] \<and> i \<notin> seen \<and> i \<in> seenAfter (poolIdOf_part p) seen)"
  by (auto simp: emits_bot_def emits_part_def seenAfter_def markSeen_def split: option.splits)

lemma eventsOnce_step:
  assumes inv: "eventsOnce st"
    and ev: "events st' = events st @ new"
    and new: "new = [] \<or> (\<exists>i m. new = [(i, m)] \<and> i \<notin> seenPools st \<and> i \<in> seenPools st')"
    and mono: "seenPools st \<subseteq> seenPools st'"
  shows "eventsOnce st'"
  using assms by (auto simp: eventsOnce_def)

lemma processPool_eventsOnce: "eventsOnce st \<Longrightarrow> eventsOnce (processPool cfg env p st)"
  using eventsOnce_step [of st "processPool cfg env p st" "emits_bot p (seenPools st)"]
    emits_cases(1) [of p "seenPools st"] seenAfter_mono [of "seenPools st" "poolIdOf_bot p"]
  by (simp add: processPool_events processPool_seen)

lemma processNewPool_eventsOnce: "eventsOnce st \<Longrightarrow> eventsOnce (processNewPool cfg env p st)"
  using eventsOnce_step [of st "processNewPool cfg env p st" "emits_part p (seenPools st)"]
    emits_cases(2) [of p "seenPools st"] seenAfter_mono [of "seenPools st" "poolIdOf_part p"]
  by (simp add: processNewPool_events processNewPool_seen)

lemma sellCheck_id: "sellCheck cfg sellResult entry st = st"
  by (simp add: sellCheck_def Let_def split: option.splits)

lemma sellCheck_fold: "foldl (\<lambda>s entry. sellCheck cfg sellResult entry s) st entries = st"
  by (induction entries) (simp_all add: sellCheck_id)

lemma monitorTick_eq:
  "monitorTick cfg t st = foldl (\<lambda>s pe. processPool cfg (snd pe) (fst pe) s) st (listing t)"
  by (simp add: monitorTick_def Let_def sellCheck_fold)

lemma processPool_sellCalls: "sellCalls (processPool cfg env p st) = sellCalls st"
  by (simp add: processPool_def sellCalls_def Let_def option.case_distrib [of apiCalls]
       if_distrib [of apiCalls] prod.case_distrib [of apiCalls] option.case_eq_if split_beta)

lemma processPool_keys:
  "fst ` set (positions st) \<subseteq> fst ` set (positions (processPool cfg env p st))"
  by (simp add: processPool_def Let_def dom_update option.case_distrib [of positions]
       if_distrib [of positions] prod.case_distrib [of positions] split_beta subset_insertI
       split: option.split)

lemma processPool_fold:
  "sellCalls (foldl (\<lambda>s pe. processPool cfg (snd pe) (fst pe) s) st pes) = sellCalls st
   \<and> fst ` set (positions st)
       \<subseteq> fst ` set (positions (foldl (\<lambda>s pe. processPool cfg (snd pe) (fst pe) s) st pes))
   \<and> seenPools st \<subseteq> seenPools (foldl (\<lambda>s pe. processPool cfg (snd pe) (fst pe) s) st pes)
   \<and> (eventsOnce st \<longrightarrow>
        eventsOnce (foldl (\<lambda>s pe. processPool cfg (snd pe) (fst pe) s) st pes))"
proof (induction pes arbitrary: st)
  case Nil
  show ?case by simp
next
  case (Cons pe pes)
  let ?st = "processPool cfg (snd pe) (fst pe) st"
  have a: "sellCalls ?st = sellCalls st"
    by (rule processPool_sellCalls)
  have b: "fst ` set (positions st) \<subseteq> fst ` set (positions ?st)"
    by (rule processPool_keys)
  have s: "seenPools st \<subseteq> seenPools ?st"
    by (simp add: processPool_seen seenAfter_mono)
  have o: "eventsOnce st \<longrightarrow> eventsOnce ?st"
    by (simp add: processPool_eventsOnce)
  have c: "sellCalls (foldl (\<lambda>s pe. processPool cfg (snd pe) (fst pe) s) ?st pes)
             = sellCalls ?st"
    and d: "fst ` set (positions ?st)
             \<subseteq> fst ` set (positions (foldl (\<lambda>s pe. processPool cfg (snd pe) (fst pe) s) ?st pes))"
    and t: "seenPools ?st
             \<subseteq> seenPools (foldl (\<lambda>s pe. processPool cfg (snd pe) (fst pe) s) ?st pes)"
    and q: "eventsOnce ?st \<longrightarrow>
             eventsOnce (foldl (\<lambda>s pe. processPool cfg (snd pe) (fst pe) s) ?st pes)"
    using Cons.IH [of ?st] by blast+
  have e: "foldl (\<lambda>s pe. processPool cfg (snd pe) (fst pe) s) st (pe # pes)
             = foldl (\<lambda>s pe. processPool cfg (snd pe) (fst pe) s) ?st pes"
    by simp
  show ?case
    unfolding e
  proof (intro conjI)
    show "sellCalls (foldl (\<lambda>s pe. processPool cfg (snd pe) (fst pe) s) ?st pes) = sellCalls st"
      using c a by (rule trans)
    show "fst ` set (positions st)
            \<subseteq> fst ` set (positions (foldl (\<lambda>s pe. processPool cfg (snd pe) (fst pe) s) ?st pes))"
      using b d by (rule subset_trans)
    show "seenPools st
            \<subseteq> seenPools (foldl (\<lambda>s pe. processPool cfg (snd pe) (fst pe) s) ?st pes)"
      using s t by (rule subset_trans)
    show "eventsOnce st \<longrightarrow>
            eventsOnce (foldl (\<lambda>s pe. processPool cfg (snd pe) (fst pe) s) ?st pes)"
      using o q by blast
  qed
qed

lemma monitorLoop_inv:
  "sellCalls (monitorLoop cfg ts st) = sellCalls st
   \<and> fst ` set (positions st) \<subseteq> fst ` set (positions (monitorLoop cfg ts st))
   \<and> seenPools st \<subseteq> seenPools (monitorLoop cfg ts st)
   \<and> (eventsOnce st \<longrightarrow> eventsOnce (monitorLoop cfg ts st))"
proof (induction ts arbitrary: st)
  case Nil
  show ?case by (simp add: monitorLoop_def)
next
  case (Cons t ts)
  let ?st = "monitorTick cfg t st"
  have step: "monitorLoop cfg (t # ts) st = monitorLoop cfg ts ?st"
    by (simp add: monitorLoop_def)
  have one: "sellCalls ?st = sellCalls st"
    "fst ` set (positions st) \<subseteq> fst ` set (positions ?st)"
    "seenPools st \<subseteq> seenPools ?st"
    "eventsOnce st \<longrightarrow> eventsOnce ?st"
    using processPool_fold [of cfg st "listing t"] by (simp_all add: monitorTick_eq)
  have rest: "sellCalls (monitorLoop cfg ts ?st) = sellCalls ?st"
    "fst ` set (positions ?st) \<subseteq> fst ` set (positions (monitorLoop cfg ts ?st))"
    "seenPools ?st \<subseteq> seenPools (monitorLoop cfg ts ?st)"
    "eventsOnce ?st \<longrightarrow> eventsOnce (monitorLoop cfg ts ?st)"
    using Cons.IH [of ?st] by simp_all
  show ?case
    unfolding step
  proof (intro conjI)
    show "sellCalls (monitorLoop cfg ts ?st) = sellCalls st"
      using rest(1) one(1) by (rule trans)
    show "fst ` set (positions st) \<subseteq> fst ` set (positions (monitorLoop cfg ts ?st))"
      using one(2) rest(2) by (rule subset_trans)
    show "seenPools st \<subseteq> seenPools (monitorLoop cfg ts ?st)"
      using one(3) rest(3) by (rule subset_trans)
    show "eventsOnce st \<longrightarrow> eventsOnce (monitorLoop cfg ts ?st)"
      using one(4) rest(4) by blast
  qed
qed

text \<open>\<^verbatim>\<open>checkAndSellPositions\<close>, one entry: the four outcomes.\<close>

lemma checkAndSell_rules:
  "(c_price env = None \<longrightarrow> checkAndSell env entry st = ([], st))
   \<and> (c_price env = Some cp \<and> falsyD cp \<longrightarrow> checkAndSell env entry st = ([], st))
   \<and> (c_price env = Some cp \<and> truthyD cp
        \<and> \<not> fle (targetPrice (snd entry)) cp
        \<and> int (c_now env) - int (boughtAtB (snd entry)) \<le> 24 * 60 * 60 * 1000 \<longrightarrow>
        checkAndSell env entry st = ([], st))
   \<and> (c_price env = Some cp \<and> truthyD cp
        \<and> (fle (targetPrice (snd entry)) cp
            \<or> 24 * 60 * 60 * 1000 < int (c_now env) - int (boughtAtB (snd entry))) \<longrightarrow>
        fst (checkAndSell env entry st)
          = [if 24 * 60 * 60 * 1000 < int (c_now env) - int (boughtAtB (snd entry))
             then ''24h timeout'' else ''target reached'']
      \<and> apiCalls (snd (checkAndSell env entry st))
          = apiCalls st
            @ [GetSwapQuote Selling (fst entry) (quoteMintB (snd entry))
                 (ffloor (fmul (amountB (snd entry)) (pow10 9)))]
            @ (case c_quote env of None \<Rightarrow> [] | Some q \<Rightarrow> [ExecuteSwap Selling q])
      \<and> positions (snd (checkAndSell env entry st))
          = (if c_quote env \<noteq> None \<and> truthy (c_signature env)
             then AList.delete (fst entry) (positions st) else positions st))"
  by (auto simp: checkAndSell_def Let_def falsyD_def truthy_def split: option.splits)

lemma checkAndSell_once:
  "length (fst (checkAndSell env entry st)) \<le> 1
   \<and> length (sellCalls (snd (checkAndSell env entry st))) \<le> length (sellCalls st) + 2"
  by (auto simp: checkAndSell_def sellCalls_def Let_def split: option.splits)

lemma checkAndSell_frame:
  "seenPools (snd (checkAndSell env entry st)) = seenPools st
   \<and> events (snd (checkAndSell env entry st)) = events st"
  by (auto simp: checkAndSell_def Let_def split: option.splits)

lemma checkAndSell_eventsOnce:
  "eventsOnce (snd (checkAndSell env entry st)) = eventsOnce st"
  by (simp add: eventsOnce_def checkAndSell_frame)

lemma length_update_present:
  "k \<in> fst ` set al \<Longrightarrow> length (AList.update k v al) = length al"
  by (induction al) auto

lemma processNewPool_distinct:
  "distinct (map fst (positions st)) \<Longrightarrow>
     distinct (map fst (positions (processNewPool cfg env p st)))"
  by (simp add: processNewPool_def recordPosition_def Let_def distinct_update
        option.case_distrib [of positions] if_distrib [of positions]
        prod.case_distrib [of positions] split_beta split: option.split)

lemma checkAndSell_distinct:
  "distinct (map fst (positions st)) \<Longrightarrow>
     distinct (map fst (positions (snd (checkAndSell env entry st))))"
  by (simp add: checkAndSell_def Let_def distinct_delete
        option.case_distrib [of snd] if_distrib [of snd]
        option.case_distrib [of positions] if_distrib [of positions] split: option.split)

lemma checkAndSell_fold:
  "length (sellCalls (snd (foldl (\<lambda>acc entry.
             let r = checkAndSell (envOf (fst entry)) entry (snd acc)
             in (fst acc @ fst r, snd r)) acc es)))
      \<le> length (sellCalls (snd acc)) + 2 * length es
   \<and> length (fst (foldl (\<lambda>acc entry.
             let r = checkAndSell (envOf (fst entry)) entry (snd acc)
             in (fst acc @ fst r, snd r)) acc es))
      \<le> length (fst acc) + length es
   \<and> eventsOnce (snd (foldl (\<lambda>acc entry.
             let r = checkAndSell (envOf (fst entry)) entry (snd acc)
             in (fst acc @ fst r, snd r)) acc es)) = eventsOnce (snd acc)
   \<and> seenPools (snd (foldl (\<lambda>acc entry.
             let r = checkAndSell (envOf (fst entry)) entry (snd acc)
             in (fst acc @ fst r, snd r)) acc es)) = seenPools (snd acc)
   \<and> (distinct (map fst (positions (snd acc))) \<longrightarrow>
        distinct (map fst (positions (snd (foldl (\<lambda>acc entry.
             let r = checkAndSell (envOf (fst entry)) entry (snd acc)
             in (fst acc @ fst r, snd r)) acc es)))))"
proof (induction es arbitrary: acc)
  case Nil
  show ?case by simp
next
  case (Cons e es)
  let ?r = "checkAndSell (envOf (fst e)) e (snd acc)"
  let ?acc = "(fst acc @ fst ?r, snd ?r)"
  have once: "length (fst ?r) \<le> 1"
    "length (sellCalls (snd ?r)) \<le> length (sellCalls (snd acc)) + 2"
    using checkAndSell_once [of "envOf (fst e)" e "snd acc"] by simp_all
  have seen: "seenPools (snd ?r) = seenPools (snd acc)"
    by (simp add: checkAndSell_frame)
  have ev: "eventsOnce (snd ?r) = eventsOnce (snd acc)"
    by (rule checkAndSell_eventsOnce)
  have dist: "distinct (map fst (positions (snd acc))) \<longrightarrow>
      distinct (map fst (positions (snd ?r)))"
    by (simp add: checkAndSell_distinct)
  show ?case
    using Cons.IH [of ?acc] once seen ev dist by (simp add: Let_def)
qed

lemma checkAndSellPositions_inv:
  "length (sellCalls (snd (checkAndSellPositions envOf st)))
      \<le> length (sellCalls st) + 2 * length (positions st)
   \<and> length (fst (checkAndSellPositions envOf st)) \<le> length (positions st)
   \<and> eventsOnce (snd (checkAndSellPositions envOf st)) = eventsOnce st
   \<and> seenPools (snd (checkAndSellPositions envOf st)) = seenPools st
   \<and> (distinct (map fst (positions st)) \<longrightarrow>
        distinct (map fst (positions (snd (checkAndSellPositions envOf st)))))"
  using checkAndSell_fold [of envOf "([], st)" "positions st"]
  by (simp add: checkAndSellPositions_def)

text \<open>
  C9, as stated, fails in its second half: both bots add the pool identifier to the
  seen-set before they look for the token mint, so an identifier first met on a payload
  without a mint is spent. Fed that payload and then a well-formed payload with the same
  identifier, either bot emits no pool event at all, where the well-formed payload alone
  would have given one.
\<close>

theorem seen_pool_without_mint_never_emitted:
  "events (processNewPool cfgA (envOk 2 ''sig1'' 1000) (poolOf ''P1'' ''M'')
       (processNewPool cfgA (envOk 2 ''sig1'' 1000) (poolNoMint ''P1'') emptyBot)) = []
   \<and> events (processPool cfgA (envOk 2 ''sig1'' 1000) (poolOf ''P1'' ''M'')
       (processPool cfgA (envOk 2 ''sig1'' 1000) (poolNoMint ''P1'') emptyBot)) = []
   \<and> events (processNewPool cfgA (envOk 2 ''sig1'' 1000) (poolOf ''P1'' ''M'') emptyBot)
       = [(''P1'', ''M'')]
   \<and> events (processPool cfgA (envOk 2 ''sig1'' 1000) (poolOf ''P1'' ''M'') emptyBot)
       = [(''P1'', ''M'')]"
  by (simp add: processNewPool_events processPool_events processNewPool_seen processPool_seen
        emits_part_def emits_bot_def seenAfter_def markSeen_def poolIdOf_part_def
        poolIdOf_bot_def baseMintOf_part_def tokenMintOf_bot_def poolOf_def poolNoMint_def
        emptyPool_def emptyBot_def js_or_def truthy_def knownMints_def)

text \<open>
  C9, amended. A pool event is the \<^verbatim>\<open>New pool detected\<close> line, after which the risk
  evaluator and the buy follow. \<^verbatim>\<open>processPool\<close> and \<^verbatim>\<open>processNewPool\<close> add to the
  events exactly what the pool emits: one event when its identifier is truthy and
  unseen and the pool carries a token mint (in \<^verbatim>\<open>processNewPool\<close>, one that is not a
  known quote mint), and nothing otherwise. No pool identifier ever has two events: the
  events of a state stay well-formed through \<^verbatim>\<open>processPool\<close>, \<^verbatim>\<open>processNewPool\<close>, any
  run of \<^verbatim>\<open>monitorLoop\<close> and \<^verbatim>\<open>checkAndSellPositions\<close>, and they are well-formed at
  the start. The seen-set only grows and a pool whose identifier is in it emits nothing.
  Feeding the same pool twice gives exactly one event when the pool is unseen and
  carries such a mint.
\<close>

theorem pool_emitted_at_most_once:
  "events (processPool cfg env p stA) = events stA @ emits_bot p (seenPools stA)
   \<and> events (processNewPool cfg env p stB) = events stB @ emits_part p (seenPools stB)
   \<and> seenPools (processPool cfg env p stA) = seenAfter (poolIdOf_bot p) (seenPools stA)
   \<and> seenPools (processNewPool cfg env p stB) = seenAfter (poolIdOf_part p) (seenPools stB)
   \<and> seen \<subseteq> seenAfter v seen
   \<and> seenPools stA \<subseteq> seenPools (monitorLoop cfg ts stA)
   \<and> seenPools (snd (checkAndSellPositions envOf stB)) = seenPools stB
   \<and> eventsOnce (emptyBot :: positionA bot)
   \<and> eventsOnce (emptyBot :: positionB bot)
   \<and> (eventsOnce stA \<longrightarrow>
        eventsOnce (processPool cfg env p stA) \<and> eventsOnce (monitorLoop cfg ts stA))
   \<and> (eventsOnce stB \<longrightarrow>
        eventsOnce (processNewPool cfg env p stB)
        \<and> eventsOnce (snd (checkAndSellPositions envOf stB)))
   \<and> (poolIdOf_bot q = Some i \<and> i \<in> seenPools stA \<longrightarrow> emits_bot q (seenPools stA) = [])
   \<and> (poolIdOf_part q = Some i \<and> i \<in> seenPools stB \<longrightarrow> emits_part q (seenPools stB) = [])
   \<and> (poolIdOf_bot p = Some i \<and> i \<noteq> [] \<and> i \<notin> seenPools stA
        \<and> tokenMintOf_bot p = Some m \<and> m \<noteq> [] \<longrightarrow>
        events (processPool cfg env' p (processPool cfg env p stA)) = events stA @ [(i, m)])
   \<and> (poolIdOf_part p = Some i \<and> i \<noteq> [] \<and> i \<notin> seenPools stB
        \<and> baseMintOf_part p = Some m \<and> m \<noteq> [] \<and> m \<notin> set knownMints \<longrightarrow>
        events (processNewPool cfg env' p (processNewPool cfg env p stB))
          = events stB @ [(i, m)])"
proof -
  have seenq: "poolIdOf_bot q = Some i \<and> i \<in> seenPools stA \<longrightarrow> emits_bot q (seenPools stA) = []"
    "poolIdOf_part q = Some i \<and> i \<in> seenPools stB \<longrightarrow> emits_part q (seenPools stB) = []"
    by (simp_all add: emits_bot_def emits_part_def markSeen_def)
  have twiceA: "poolIdOf_bot p = Some i \<and> i \<noteq> [] \<and> i \<notin> seenPools stA
        \<and> tokenMintOf_bot p = Some m \<and> m \<noteq> [] \<longrightarrow>
        events (processPool cfg env' p (processPool cfg env p stA)) = events stA @ [(i, m)]"
    by (simp add: processPool_events processPool_seen emits_bot_def seenAfter_def markSeen_def)
  have twiceB: "poolIdOf_part p = Some i \<and> i \<noteq> [] \<and> i \<notin> seenPools stB
        \<and> baseMintOf_part p = Some m \<and> m \<noteq> [] \<and> m \<notin> set knownMints \<longrightarrow>
        events (processNewPool cfg env' p (processNewPool cfg env p stB))
          = events stB @ [(i, m)]"
    by (simp add: processNewPool_events processNewPool_seen emits_part_def seenAfter_def
          markSeen_def)
  have start: "eventsOnce (emptyBot :: positionA bot)" "eventsOnce (emptyBot :: positionB bot)"
    by (simp_all add: eventsOnce_def emptyBot_def)
  have loop: "seenPools stA \<subseteq> seenPools (monitorLoop cfg ts stA)"
    "eventsOnce stA \<longrightarrow>
       eventsOnce (processPool cfg env p stA) \<and> eventsOnce (monitorLoop cfg ts stA)"
    using monitorLoop_inv [of cfg ts stA] processPool_eventsOnce [of stA cfg env p]
    by simp_all
  have sell: "seenPools (snd (checkAndSellPositions envOf stB)) = seenPools stB"
    "eventsOnce stB \<longrightarrow>
       eventsOnce (processNewPool cfg env p stB)
       \<and> eventsOnce (snd (checkAndSellPositions envOf stB))"
    using checkAndSellPositions_inv [of envOf stB] processNewPool_eventsOnce [of stB cfg env p]
    by simp_all
  show ?thesis
    by (intro conjI processPool_events processNewPool_events processPool_seen
          processNewPool_seen seenAfter_mono loop sell start seenq twiceA twiceB)
qed

theorem pool_emitted_at_most_once_witness:
  "events (processPool cfgA (envOk 2 ''sig1'' 1000) (poolOf ''P1'' ''M'')
       (processPool cfgA (envOk 2 ''sig1'' 1000) (poolOf ''P1'' ''M'') emptyBot))
     = [(''P1'', ''M'')]
   \<and> events (processNewPool cfgA (envOk 2 ''sig1'' 1000) (poolOf ''P1'' ''M'')
       (processNewPool cfgA (envOk 2 ''sig1'' 1000) (poolOf ''P1'' ''M'') emptyBot))
     = [(''P1'', ''M'')]
   \<and> eventsOnce (monitorLoop cfgA [tickA, tickA] emptyBot)
   \<and> eventsOnce (processNewPool cfgA (envOk 2 ''sig1'' 1000) (poolOf ''P1'' ''M'') emptyBot)
   \<and> emits_part (poolOf ''P1'' ''M'') {''P1''} = []"
  using pool_emitted_at_most_once [where cfg = cfgA and env = "envOk 2 ''sig1'' 1000"
      and env' = "envOk 2 ''sig1'' 1000" and p = "poolOf ''P1'' ''M''"
      and q = "poolOf ''P1'' ''M''" and i = "''P1''" and m = "''M''"
      and stA = emptyBot and stB = emptyBot and ts = "[tickA, tickA]"]
    pool_emitted_at_most_once [where q = "poolOf ''P1'' ''M''" and i = "''P1''"
      and stB = "emptyBot\<lparr>seenPools := {''P1''}\<rparr> :: positionB bot"]
  by (simp add: poolIdOf_part_def poolIdOf_bot_def baseMintOf_part_def tokenMintOf_bot_def
        poolOf_def emptyPool_def emptyBot_def js_or_def truthy_def knownMints_def)

section \<open>The monitor loop of \<^verbatim>\<open>src/bot.js\<close>\<close>

lemma processPool_tickA:
  "processPool cfgA (envOk 2 ''sig1'' 1000) (poolOf ''P1'' ''M'') emptyBot
     = \<lparr>seenPools = {''P1''},
        positions = [(''M'', \<lparr>buyPrice = Some (Finite 1), amountA = None,
                              txSignature = ''sig1'', boughtAt = 1000\<rparr>)],
        apiCalls = [TradeApi Buying None (Some ''M'') (Finite 5000000) 2],
        events = [(''P1'', ''M'')]\<rparr>"
  by (simp add: processPool_def cfgA_def envOk_def poolOf_def emptyPool_def emptyBot_def
        markSeen_def poolIdOf_bot_def tokenMintOf_bot_def js_or_def truthy_def rugChecks_envOk
        estimatePriceFromPool_def Let_def toDouble_numeral)

text \<open>
  C10. In the loop over \<^verbatim>\<open>positions\<close> of \<^verbatim>\<open>monitorLoop\<close> the current price is the
  constant \<^verbatim>\<open>null\<close>, so the body changes nothing for any entry, whatever the sell would
  return; over any run of the interval callback no swap is requested from the selling
  place, and every mint that has a position keeps one.
\<close>

theorem monitorLoop_never_sells:
  "sellCheck cfg sellResult entry st = st
   \<and> sellCalls (monitorLoop cfg ts st) = sellCalls st
   \<and> fst ` set (positions st) \<subseteq> fst ` set (positions (monitorLoop cfg ts st))"
  using sellCheck_id [of cfg sellResult entry st] monitorLoop_inv [of cfg ts st] by simp

text \<open>
  The witness: a position bought at the price 1 with a target multiplier of 2, on a
  network whose sells all succeed, stays over two more firings and no sell is requested.
\<close>

theorem monitorLoop_never_sells_witness:
  "positions (monitorLoop cfgA [tickA] emptyBot)
      = [(''M'', \<lparr>buyPrice = Some (Finite 1), amountA = None, txSignature = ''sig1'',
                  boughtAt = 1000\<rparr>)]
   \<and> sellCalls (monitorLoop cfgA [tickA, tickA] (monitorLoop cfgA [tickA] emptyBot)) = []
   \<and> ''M'' \<in> fst ` set (positions
        (monitorLoop cfgA [tickA, tickA] (monitorLoop cfgA [tickA] emptyBot)))"
proof -
  have one: "monitorLoop cfgA [tickA] emptyBot
      = \<lparr>seenPools = {''P1''},
         positions = [(''M'', \<lparr>buyPrice = Some (Finite 1), amountA = None,
                               txSignature = ''sig1'', boughtAt = 1000\<rparr>)],
         apiCalls = [TradeApi Buying None (Some ''M'') (Finite 5000000) 2],
         events = [(''P1'', ''M'')]\<rparr>"
    by (simp add: monitorLoop_def monitorTick_eq tickA_def processPool_tickA)
  show ?thesis
    using monitorLoop_never_sells [of cfgA "\<lambda>m. Some ''sold''"
        "(''M'', \<lparr>buyPrice = Some (Finite 1), amountA = None, txSignature = ''sig1'',
                  boughtAt = 1000\<rparr>)"
        "monitorLoop cfgA [tickA] emptyBot" "[tickA, tickA]"]
    by (auto simp: one sellCalls_def)
qed

section \<open>The position monitor of the log-subscription bot\<close>

lemma truthyD_not_zero: "truthyD x \<Longrightarrow> \<not> feq x (Finite 0)"
  by (cases x) simp_all

lemma getPrice_truthy: "truthyD x \<Longrightarrow> getPrice (Returned (Some x)) = Returned x"
  by (simp add: getPrice_def)

lemma amountTokens_examples:
  "amountTokens 1000 (Finite (1/2)) = Finite 500"
  "amountTokens 500 (Finite (1/4)) = Finite 125"
  "amountTokens 1000 (Finite (1/4)) = Finite 250"
  "amountTokens 1000 (Finite 1) = Finite 1000"
  "amountTokens 9007199254740993 (Finite 1) = Finite 9007199254740992"
  by (simp_all add: amountTokens_def dbl_eval)

lemma amountTokens_all: "bal < 2 ^ 53 \<Longrightarrow> amountTokens bal (Finite 1) = Finite (real bal)"
  by (simp add: amountTokens_def Number_exact toDouble_nat_exact)

lemma wsOpened_eq:
  "wsOpened = \<lparr>objects = [0 \<mapsto> \<lparr>buy_price = Finite 1, amount = Finite (1/2),
                                  sold_25 = False, sold_50 = False\<rparr>],
     fresh = 1, registry = [''M'' \<mapsto> 0], monitors = [(''M'', 0)], sellLog = [], console = []\<rparr>"
  by (simp add: wsOpened_def onNewPool_def swapBuy_def swapOk_def getPrice_def openPosition_def
        wsInit_def wsCfg_def dbl_eval)

lemma swapSell_quoteFails:
  "swapSell quoteFails sellPct = (Returned False, Some (amountTokens 1000 sellPct))"
  by (simp add: swapSell_def quoteFails_def swapOk_def)

lemma swapSell_swapOk:
  "swapSell (swapOk bal) sellPct = (Returned True, Some (amountTokens bal sellPct))"
  by (simp add: swapSell_def swapOk_def)

lemma swapBuy_swapOk: "swapBuy (swapOk bal) = Returned True"
  by (simp add: swapBuy_def swapOk_def)

lemma multiplier_examples:
  "fdiv (Finite 3) (Finite 1) = Finite 3"
  "fdiv (Finite 1) (Finite 1) = Finite 1"
  "fdiv (Finite (1/2)) (Finite 1) = Finite (1/2)"
  "toDouble 3 = Finite 3" "toDouble 1 = Finite 1" "toDouble (1/2) = Finite (1/2)"
  "fle (Finite 3) (Finite 3)" "fle (Finite 2) (Finite 3)"
  "\<not> fle (Finite 3) (Finite 1)" "\<not> fle (Finite 2) (Finite 1)"
  "\<not> fle (Finite 3) (Finite (1/2))" "\<not> fle (Finite 2) (Finite (1/2))"
  "stopLoss wsCfg (Finite (1/2))" "\<not> stopLoss wsCfg (Finite 1)"
  by (simp_all add: stopLoss_def wsCfg_def dbl_eval)

lemma wsAfterOne_eq:
  "wsAfterOne = \<lparr>objects = [0 \<mapsto> \<lparr>buy_price = Finite 1, amount = Finite (1/2),
                                    sold_25 = False, sold_50 = True\<rparr>],
     fresh = 1, registry = [''M'' \<mapsto> 0], monitors = [(''M'', 0)],
     sellLog = [(''M'', Finite (1/2), Some (Finite 500))], console = []\<rparr>"
  by (simp add: wsAfterOne_def wsOpened_eq monitorIter_def callSwapSell_def getPrice_def
        swapSell_swapOk amountTokens_examples multiplier_examples stage50_def stage25_def
        Let_def)

lemma wsAfterTwo_eq:
  "wsAfterTwo = \<lparr>objects = [0 \<mapsto> \<lparr>buy_price = Finite 1, amount = Finite (1/2),
                                    sold_25 = True, sold_50 = True\<rparr>],
     fresh = 1, registry = [''M'' \<mapsto> 0], monitors = [(''M'', 0)],
     sellLog = [(''M'', Finite (1/2), Some (Finite 500)), (''M'', Finite (1/4), Some (Finite 125))],
     console = []\<rparr>"
  by (simp add: wsAfterTwo_def wsAfterOne_eq monitorIter_def callSwapSell_def getPrice_def
        swapSell_swapOk amountTokens_examples multiplier_examples stage50_def stage25_def
        Let_def)

lemma wsReopened_eq:
  "wsReopened = \<lparr>objects = [0 \<mapsto> \<lparr>buy_price = Finite 1, amount = Finite (1/2),
                                    sold_25 = False, sold_50 = True\<rparr>,
                            1 \<mapsto> \<lparr>buy_price = Finite 2, amount = Finite (1/4),
                                    sold_25 = False, sold_50 = False\<rparr>],
     fresh = 2, registry = [''M'' \<mapsto> 1], monitors = [(''M'', 0), (''M'', 1)],
     sellLog = [(''M'', Finite (1/2), Some (Finite 500))], console = []\<rparr>"
  by (simp add: wsReopened_def wsAfterOne_eq onNewPool_def swapBuy_def swapOk_def getPrice_def
        openPosition_def wsCfg_def dbl_eval)

lemma wsStopped_eq:
  "wsStopped = \<lparr>objects = [0 \<mapsto> \<lparr>buy_price = Finite 1, amount = Finite (1/2),
                                   sold_25 = False, sold_50 = False\<rparr>],
     fresh = 1, registry = Map.empty, monitors = [(''M'', 0)],
     sellLog = [(''M'', Finite 1, Some (Finite 1000))],
     console = [''Stop loss triggered for M'']\<rparr>"
  by (simp add: wsStopped_def wsOpened_eq monitorIter_def callSwapSell_def getPrice_def
        swapSell_swapOk amountTokens_examples multiplier_examples stage50_def stage25_def
        Let_def)

text \<open>
  Two passes in which rounding decides. Bought at \<^verbatim>\<open>0.1\<close> and priced at \<^verbatim>\<open>0.3\<close>, the
  multiplier is \<^verbatim>\<open>2.9999999999999996\<close>: the 3x rule does not hold and the 2x rule sells
  25 percent. Bought at \<^verbatim>\<open>0.35\<close> and priced at \<^verbatim>\<open>0.28\<close> with a stop loss of 20 percent,
  the multiplier \<^verbatim>\<open>0.8000000000000002\<close> is above \<^verbatim>\<open>1 - 20 / 100\<close>: no rule holds and
  the pass sells nothing.
\<close>

lemma monitor_pass_rounding:
  "sellLog (snd (monitorIter wsCfg (Returned (Some (toDouble (3/10)))) (swapOk 1000) ''M'' 0
       (onNewPool wsCfg (swapOk 0) (Returned (Some (toDouble (1/10)))) ''M'' wsInit)))
     = [(''M'', Finite (1/4), Some (Finite 250))]"
  "fst (monitorIter wsCfg (Returned (Some (toDouble (28/100)))) (swapOk 1000) ''M'' 0
       (onNewPool wsCfg (swapOk 0) (Returned (Some (toDouble (35/100)))) ''M'' wsInit))
     = Continue"
  "sellLog (snd (monitorIter wsCfg (Returned (Some (toDouble (28/100)))) (swapOk 1000) ''M'' 0
       (onNewPool wsCfg (swapOk 0) (Returned (Some (toDouble (35/100)))) ''M'' wsInit))) = []"
  by (simp_all add: monitorIter_def callSwapSell_def getPrice_def swapSell_swapOk
        amountTokens_examples stage50_def stage25_def stopLoss_def onNewPool_def
        swapBuy_swapOk openPosition_def wsInit_def wsCfg_def dbl_eval)

lemma monitorIter_rules:
  assumes pos: "objects st ref = Some pos"
    and price: "truthyD currentPrice"
    and r50: "fst (swapSell env (Finite (1/2))) = Returned b50"
    and r25: "fst (swapSell env (Finite (1/4))) = Returned b25"
    and r100: "fst (swapSell env (Finite 1)) = Returned b100"
  shows "(fle (Finite 3) (fdiv currentPrice (buy_price pos)) \<and> \<not> sold_50 pos \<longrightarrow>
           monitorIter cfg (Returned (Some currentPrice)) env tokenMint ref st
             = (Continue,
                st\<lparr>sellLog := sellLog st
                      @ [(tokenMint, Finite (1/2), snd (swapSell env (Finite (1/2))))],
                   objects := (objects st)(ref \<mapsto> pos\<lparr>sold_50 := True\<rparr>)\<rparr>))
       \<and> (\<not> (fle (Finite 3) (fdiv currentPrice (buy_price pos)) \<and> \<not> sold_50 pos)
           \<and> fle (Finite 2) (fdiv currentPrice (buy_price pos)) \<and> \<not> sold_25 pos \<longrightarrow>
           monitorIter cfg (Returned (Some currentPrice)) env tokenMint ref st
             = (Continue,
                st\<lparr>sellLog := sellLog st
                      @ [(tokenMint, Finite (1/4), snd (swapSell env (Finite (1/4))))],
                   objects := (objects st)(ref \<mapsto> pos\<lparr>sold_25 := True\<rparr>)\<rparr>))
       \<and> (\<not> (fle (Finite 3) (fdiv currentPrice (buy_price pos)) \<and> \<not> sold_50 pos)
           \<and> \<not> (fle (Finite 2) (fdiv currentPrice (buy_price pos)) \<and> \<not> sold_25 pos)
           \<and> fle (fdiv currentPrice (buy_price pos))
                 (fsub (Finite 1) (fdiv (STOP_LOSS_PCT cfg) (Finite 100))) \<longrightarrow>
           monitorIter cfg (Returned (Some currentPrice)) env tokenMint ref st
             = (Break,
                st\<lparr>sellLog := sellLog st
                      @ [(tokenMint, Finite 1, snd (swapSell env (Finite 1)))],
                   registry := (registry st)(tokenMint := None),
                   console := console st @ [''Stop loss triggered for '' @ tokenMint]\<rparr>))
       \<and> (\<not> (fle (Finite 3) (fdiv currentPrice (buy_price pos)) \<and> \<not> sold_50 pos)
           \<and> \<not> (fle (Finite 2) (fdiv currentPrice (buy_price pos)) \<and> \<not> sold_25 pos)
           \<and> \<not> fle (fdiv currentPrice (buy_price pos))
                   (fsub (Finite 1) (fdiv (STOP_LOSS_PCT cfg) (Finite 100))) \<longrightarrow>
           monitorIter cfg (Returned (Some currentPrice)) env tokenMint ref st = (Continue, st))"
proof -
  have c50: "callSwapSell env tokenMint (Finite (1/2)) st
      = (Returned b50,
         st\<lparr>sellLog := sellLog st
               @ [(tokenMint, Finite (1/2), snd (swapSell env (Finite (1/2))))]\<rparr>)"
    using r50 by (simp add: callSwapSell_def Let_def)
  have c25: "callSwapSell env tokenMint (Finite (1/4)) st
      = (Returned b25,
         st\<lparr>sellLog := sellLog st
               @ [(tokenMint, Finite (1/4), snd (swapSell env (Finite (1/4))))]\<rparr>)"
    using r25 by (simp add: callSwapSell_def Let_def)
  have c100: "callSwapSell env tokenMint (Finite 1) st
      = (Returned b100,
         st\<lparr>sellLog := sellLog st @ [(tokenMint, Finite 1, snd (swapSell env (Finite 1)))]\<rparr>)"
    using r100 by (simp add: callSwapSell_def Let_def)
  show ?thesis
    using pos price
    by (simp add: monitorIter_def getPrice_truthy truthyD_not_zero Let_def c50 c25 c100
          stage50_def stage25_def stopLoss_def)
qed

lemma monitorIter_no_price:
  "getPrice priceResp = Returned (Finite 0) \<Longrightarrow>
     monitorIter cfg priceResp env tokenMint ref st = (Continue, st)"
  by (simp add: monitorIter_def)

lemma monitorIter_sells_at_most_once:
  "length (sellLog (snd (monitorIter cfg priceResp env tokenMint ref st)))
     \<le> Suc (length (sellLog st))"
  by (auto simp: monitorIter_def callSwapSell_def Let_def
        split: fetch.splits option.splits prod.splits)

lemma monitorIter_sell_shape:
  "monitorIter cfg priceResp env tokenMint ref st = (r, st') \<Longrightarrow>
     sellLog st' = sellLog st
     \<or> sellLog st' = sellLog st
          @ [(tokenMint, Finite (1/2), snd (swapSell env (Finite (1/2))))] \<and> r \<noteq> Break
     \<or> sellLog st' = sellLog st
          @ [(tokenMint, Finite (1/4), snd (swapSell env (Finite (1/4))))] \<and> r \<noteq> Break
     \<or> sellLog st' = sellLog st
          @ [(tokenMint, Finite 1, snd (swapSell env (Finite 1)))] \<and> r \<noteq> Continue
        \<and> (\<exists>pos currentPrice. objects st ref = Some pos
              \<and> getPrice priceResp = Returned currentPrice
              \<and> \<not> stage50 (fdiv currentPrice (buy_price pos)) pos
              \<and> \<not> stage25 (fdiv currentPrice (buy_price pos)) pos
              \<and> stopLoss cfg (fdiv currentPrice (buy_price pos)))"
  by (auto simp: monitorIter_def callSwapSell_def Let_def
        split: fetch.splits option.splits prod.splits if_splits)

lemma monitorIter_Break:
  "monitorIter cfg priceResp env tokenMint ref st = (Break, st') \<Longrightarrow>
     registry st' = (registry st)(tokenMint := None)
   \<and> console st' = console st @ [''Stop loss triggered for '' @ tokenMint]
   \<and> sellLog st' = sellLog st @ [(tokenMint, Finite 1, snd (swapSell env (Finite 1)))]
   \<and> objects st' = objects st"
  by (auto simp: monitorIter_def callSwapSell_def Let_def
        split: fetch.splits option.splits prod.splits if_splits)

lemma monitorIter_not_Break:
  "monitorIter cfg priceResp env tokenMint ref st = (r, st') \<Longrightarrow> r \<noteq> Break \<Longrightarrow>
     registry st' = registry st \<and> console st' = console st"
  by (auto simp: monitorIter_def callSwapSell_def Let_def
        split: fetch.splits option.splits prod.splits if_splits)

lemma monitorPosition_Finished:
  "monitorPosition cfg passes tokenMint ref st = (Finished, st') \<Longrightarrow>
     registry st' tokenMint = None"
proof (induction passes arbitrary: st)
  case Nil
  then show ?case by simp
next
  case (Cons pass passes)
  obtain r st1 where it: "monitorIter cfg (fst pass) (snd pass) tokenMint ref st = (r, st1)"
    by (cases "monitorIter cfg (fst pass) (snd pass) tokenMint ref st")
  show ?case
  proof (cases r)
    case Continue
    with Cons.prems it have "monitorPosition cfg passes tokenMint ref st1 = (Finished, st')"
      by simp
    then show ?thesis by (rule Cons.IH)
  next
    case Break
    with Cons.prems it have "st1 = st'" by simp
    with monitorIter_Break [of cfg "fst pass" "snd pass" tokenMint ref st st1] it Break
    show ?thesis by simp
  next
    case (Rejected e)
    with Cons.prems it show ?thesis by simp
  qed
qed

lemma monitorPosition_not_Finished:
  "monitorPosition cfg passes tokenMint ref st = (r, st') \<Longrightarrow> r \<noteq> Finished \<Longrightarrow>
     registry st' = registry st"
proof (induction passes arbitrary: st)
  case Nil
  then show ?case by simp
next
  case (Cons pass passes)
  obtain q st1 where it: "monitorIter cfg (fst pass) (snd pass) tokenMint ref st = (q, st1)"
    by (cases "monitorIter cfg (fst pass) (snd pass) tokenMint ref st")
  show ?case
  proof (cases q)
    case Continue
    with Cons.prems it have "monitorPosition cfg passes tokenMint ref st1 = (r, st')" by simp
    then have "registry st' = registry st1" using Cons.prems(2) by (rule Cons.IH)
    moreover have "registry st1 = registry st"
      using monitorIter_not_Break [OF it] Continue by simp
    ultimately show ?thesis by simp
  next
    case Break
    with Cons.prems it show ?thesis by simp
  next
    case (Rejected e)
    with Cons.prems it have "st1 = st'" by simp
    moreover have "registry st1 = registry st"
      using monitorIter_not_Break [OF it] Rejected by simp
    ultimately show ?thesis by simp
  qed
qed

text \<open>
  C1. The claim is right and \<^verbatim>\<open>monitorPosition\<close> breaks it: it does not read what
  \<^verbatim>\<open>swapSell\<close> returns. On a network whose quote request reports an error,
  \<^verbatim>\<open>swapSell\<close> returns \<^verbatim>\<open>false\<close>; at three times the buy price the pass sets
  \<^verbatim>\<open>sold_50\<close> all the same, and at half the buy price (stop loss of 20 percent) it
  deletes the position from \<^verbatim>\<open>positions\<close> all the same.
\<close>

theorem failed_sell_still_advances_position:
  "fst (swapSell quoteFails (Finite (1/2))) = Returned False
   \<and> map_option sold_50 (objects wsOpened 0) = Some False
   \<and> map_option sold_50
        (objects (snd (monitorIter wsCfg (Returned (Some (Finite 3))) quoteFails ''M'' 0
                         wsOpened)) 0)
       = Some True
   \<and> fst (swapSell quoteFails (Finite 1)) = Returned False
   \<and> registry wsOpened ''M'' = Some 0
   \<and> registry (snd (monitorIter wsCfg (Returned (Some (Finite (1/2)))) quoteFails ''M'' 0
                       wsOpened)) ''M''
       = None"
  by (simp add: wsOpened_eq swapSell_quoteFails monitorIter_def callSwapSell_def getPrice_def
        multiplier_examples stage50_def stage25_def Let_def)

section \<open>Exit rules, positions and the end of a monitor\<close>

lemma botB1_eq:
  "botB1 = \<lparr>seenPools = {''P1''},
     positions = [(''M'', \<lparr>buyPriceB = Finite 2, amountB = Finite 5, buyTx = ''sig1'',
                           boughtAtB = 1000, quoteMintB = ''USDC'', targetPrice = Finite 4\<rparr>)],
     apiCalls = [GetSwapQuote Buying ''USDC'' ''M'' (Finite 2500000),
                 ExecuteSwap Buying \<lparr>outAmount = Finite 5000000\<rparr>],
     events = [(''P1'', ''M'')]\<rparr>"
  by (simp add: botB1_def processNewPool_def cfgA_def envOk_def poolOf_def emptyPool_def
        emptyBot_def markSeen_def poolIdOf_part_def baseMintOf_part_def js_or_def truthy_def
        performRugChecks_envOk knownMints_def recordPosition_def Let_def falsyD_def fle_def
        toDouble_examples toDouble_numeral pow10_examples)

lemma botB2_eq:
  "botB2 = \<lparr>seenPools = {''P2'', ''P1''},
     positions = [(''M'', \<lparr>buyPriceB = Finite 4, amountB = Finite 5, buyTx = ''sig2'',
                           boughtAtB = 2000, quoteMintB = ''USDC'', targetPrice = Finite 8\<rparr>)],
     apiCalls = [GetSwapQuote Buying ''USDC'' ''M'' (Finite 2500000),
                 ExecuteSwap Buying \<lparr>outAmount = Finite 5000000\<rparr>,
                 GetSwapQuote Buying ''USDC'' ''M'' (Finite 1250000),
                 ExecuteSwap Buying \<lparr>outAmount = Finite 5000000\<rparr>],
     events = [(''P1'', ''M''), (''P2'', ''M'')]\<rparr>"
  by (simp add: botB2_def botB1_eq processNewPool_def cfgA_def envOk_def poolOf_def
        emptyPool_def markSeen_def poolIdOf_part_def baseMintOf_part_def js_or_def truthy_def
        performRugChecks_envOk knownMints_def recordPosition_def Let_def falsyD_def fle_def
        toDouble_examples toDouble_numeral pow10_examples)

lemma positive_truthy: "flt (Finite 0) x \<Longrightarrow> truthyD x"
  by (cases x) simp_all

text \<open>
  C2, as stated, fails on \<^verbatim>\<open>monitorPosition\<close>. At three times the buy price, above
  both thresholds, the first pass sells 50 percent and sets \<^verbatim>\<open>sold_50\<close> only; in the
  next pass at the same price the 3x rule is spent, the 2x rule holds and \<^verbatim>\<open>sold_25\<close>
  is not set, so the pass sells 25 percent of what is left and sets \<^verbatim>\<open>sold_25\<close>: the
  lower stage is flagged on its own after the higher-stage sale.
\<close>

theorem lower_stage_flagged_in_later_pass:
  "map_option sold_50 (objects wsAfterOne 0) = Some True
   \<and> map_option sold_25 (objects wsAfterOne 0) = Some False
   \<and> sellLog wsAfterOne = [(''M'', Finite (1/2), Some (Finite 500))]
   \<and> map_option sold_25 (objects wsAfterTwo 0) = Some True
   \<and> sellLog wsAfterTwo
       = [(''M'', Finite (1/2), Some (Finite 500)), (''M'', Finite (1/4), Some (Finite 125))]"
  by (simp add: wsAfterOne_eq wsAfterTwo_eq)

text \<open>
  C2, amended. The multiplier is the quotient of the current price by the buy price as
  binary64 division computes it. A pass of \<^verbatim>\<open>monitorPosition\<close> that has a price and
  whose \<^verbatim>\<open>swapSell\<close> does not throw evaluates its rules in the fixed order 3x stage
  (sell 50 percent, set \<^verbatim>\<open>sold_50\<close>), 2x stage (sell 25 percent, set \<^verbatim>\<open>sold_25\<close>),
  stop loss (sell everything, delete the position, leave the loop), and exactly the
  first rule that holds fires, with the state it leaves given in full; no pass calls
  \<^verbatim>\<open>swapSell\<close> more than once. With both stages unflagged and the multiplier at or
  above 3, only the 3x rule fires in that pass; the 2x rule fires in a later pass if
  the multiplier is still at or above 2 then. The monitor has no timeout rule.

  In \<^verbatim>\<open>checkAndSellPositions\<close> target and timeout are one condition. Without a price,
  or with the price below the target and the position no older than 24 hours, the
  position is left alone and nothing is requested. Otherwise one reason is logged
  (\<^verbatim>\<open>24h timeout\<close> when the position is old, else \<^verbatim>\<open>target reached\<close>), one quote is
  requested for the whole amount, one swap if the quote came, and the position is
  deleted exactly when the swap gave a signature. A pass over \<open>n\<close> positions logs at
  most \<open>n\<close> reasons and makes at most \<open>2 n\<close> requests.
\<close>

theorem exit_rule_priority:
  assumes "objects st ref = Some pos"
    and "truthyD currentPrice"
    and "fst (swapSell env (Finite (1/2))) = Returned b50"
    and "fst (swapSell env (Finite (1/4))) = Returned b25"
    and "fst (swapSell env (Finite 1)) = Returned b100"
  shows "(fle (Finite 3) (fdiv currentPrice (buy_price pos)) \<and> \<not> sold_50 pos \<longrightarrow>
           monitorIter cfg (Returned (Some currentPrice)) env tokenMint ref st
             = (Continue,
                st\<lparr>sellLog := sellLog st
                      @ [(tokenMint, Finite (1/2), snd (swapSell env (Finite (1/2))))],
                   objects := (objects st)(ref \<mapsto> pos\<lparr>sold_50 := True\<rparr>)\<rparr>))
       \<and> (\<not> (fle (Finite 3) (fdiv currentPrice (buy_price pos)) \<and> \<not> sold_50 pos)
           \<and> fle (Finite 2) (fdiv currentPrice (buy_price pos)) \<and> \<not> sold_25 pos \<longrightarrow>
           monitorIter cfg (Returned (Some currentPrice)) env tokenMint ref st
             = (Continue,
                st\<lparr>sellLog := sellLog st
                      @ [(tokenMint, Finite (1/4), snd (swapSell env (Finite (1/4))))],
                   objects := (objects st)(ref \<mapsto> pos\<lparr>sold_25 := True\<rparr>)\<rparr>))
       \<and> (\<not> (fle (Finite 3) (fdiv currentPrice (buy_price pos)) \<and> \<not> sold_50 pos)
           \<and> \<not> (fle (Finite 2) (fdiv currentPrice (buy_price pos)) \<and> \<not> sold_25 pos)
           \<and> fle (fdiv currentPrice (buy_price pos))
                 (fsub (Finite 1) (fdiv (STOP_LOSS_PCT cfg) (Finite 100))) \<longrightarrow>
           monitorIter cfg (Returned (Some currentPrice)) env tokenMint ref st
             = (Break,
                st\<lparr>sellLog := sellLog st
                      @ [(tokenMint, Finite 1, snd (swapSell env (Finite 1)))],
                   registry := (registry st)(tokenMint := None),
                   console := console st @ [''Stop loss triggered for '' @ tokenMint]\<rparr>))
       \<and> (\<not> (fle (Finite 3) (fdiv currentPrice (buy_price pos)) \<and> \<not> sold_50 pos)
           \<and> \<not> (fle (Finite 2) (fdiv currentPrice (buy_price pos)) \<and> \<not> sold_25 pos)
           \<and> \<not> fle (fdiv currentPrice (buy_price pos))
                   (fsub (Finite 1) (fdiv (STOP_LOSS_PCT cfg) (Finite 100))) \<longrightarrow>
           monitorIter cfg (Returned (Some currentPrice)) env tokenMint ref st = (Continue, st))
       \<and> length (sellLog (snd (monitorIter cfg priceResp env tokenMint ref st)))
           \<le> Suc (length (sellLog st))
       \<and> (c_price senv = None \<longrightarrow> checkAndSell senv entry stB = ([], stB))
       \<and> (c_price senv = Some cp \<and> falsyD cp \<longrightarrow> checkAndSell senv entry stB = ([], stB))
       \<and> (c_price senv = Some cp \<and> truthyD cp
            \<and> \<not> fle (targetPrice (snd entry)) cp
            \<and> int (c_now senv) - int (boughtAtB (snd entry)) \<le> 24 * 60 * 60 * 1000 \<longrightarrow>
            checkAndSell senv entry stB = ([], stB))
       \<and> (c_price senv = Some cp \<and> truthyD cp
            \<and> (fle (targetPrice (snd entry)) cp
                \<or> 24 * 60 * 60 * 1000 < int (c_now senv) - int (boughtAtB (snd entry))) \<longrightarrow>
            fst (checkAndSell senv entry stB)
              = [if 24 * 60 * 60 * 1000 < int (c_now senv) - int (boughtAtB (snd entry))
                 then ''24h timeout'' else ''target reached'']
          \<and> apiCalls (snd (checkAndSell senv entry stB))
              = apiCalls stB
                @ [GetSwapQuote Selling (fst entry) (quoteMintB (snd entry))
                     (ffloor (fmul (amountB (snd entry)) (pow10 9)))]
                @ (case c_quote senv of None \<Rightarrow> [] | Some q \<Rightarrow> [ExecuteSwap Selling q])
          \<and> positions (snd (checkAndSell senv entry stB))
              = (if c_quote senv \<noteq> None \<and> truthy (c_signature senv)
                 then AList.delete (fst entry) (positions stB) else positions stB))
       \<and> seenPools (snd (checkAndSell senv entry stB)) = seenPools stB
       \<and> events (snd (checkAndSell senv entry stB)) = events stB
       \<and> length (fst (checkAndSellPositions envOf stB)) \<le> length (positions stB)
       \<and> length (sellCalls (snd (checkAndSellPositions envOf stB)))
           \<le> length (sellCalls stB) + 2 * length (positions stB)"
proof -
  note r = monitorIter_rules [OF assms, of cfg tokenMint]
  note c = checkAndSell_rules [of senv entry stB cp]
  note f = checkAndSell_frame [of senv entry stB]
  note i = checkAndSellPositions_inv [of envOf stB]
  show ?thesis
    by (intro conjI r [THEN conjunct1] r [THEN conjunct2, THEN conjunct1]
          r [THEN conjunct2, THEN conjunct2, THEN conjunct1]
          r [THEN conjunct2, THEN conjunct2, THEN conjunct2]
          monitorIter_sells_at_most_once
          c [THEN conjunct1] c [THEN conjunct2, THEN conjunct1]
          c [THEN conjunct2, THEN conjunct2, THEN conjunct1]
          c [THEN conjunct2, THEN conjunct2, THEN conjunct2]
          f [THEN conjunct1] f [THEN conjunct2]
          i [THEN conjunct2, THEN conjunct1] i [THEN conjunct1])
qed

text \<open>
  The witness runs the four cases from the position opened at the price 1: the price 3
  with no flag set (3x stage), the price 3 with \<^verbatim>\<open>sold_50\<close> set (2x stage), the price
  1/2 (stop loss at 20 percent) and the price 1 (no rule); and one position of the
  polling bot, bought at 2 with the target 4, at the prices 4 (sold, deleted) and 3
  (left alone).
\<close>

theorem exit_rule_priority_witness:
  "monitorIter wsCfg (Returned (Some (Finite 3))) (swapOk 1000) ''M'' 0 wsOpened
     = (Continue, wsAfterOne)
   \<and> monitorIter wsCfg (Returned (Some (Finite 3))) (swapOk 500) ''M'' 0 wsAfterOne
     = (Continue, wsAfterTwo)
   \<and> monitorIter wsCfg (Returned (Some (Finite (1/2)))) (swapOk 1000) ''M'' 0 wsOpened
     = (Break, wsStopped)
   \<and> monitorIter wsCfg (Returned (Some (Finite 1))) (swapOk 1000) ''M'' 0 wsOpened
     = (Continue, wsOpened)
   \<and> fst (checkAndSell \<lparr>c_price = Some (Finite 4), c_now = 2000,
                         c_quote = Some \<lparr>outAmount = Finite 20\<rparr>, c_signature = Some ''sell1''\<rparr>
            (''M'', \<lparr>buyPriceB = Finite 2, amountB = Finite 5, buyTx = ''sig1'',
                      boughtAtB = 1000, quoteMintB = ''USDC'', targetPrice = Finite 4\<rparr>) botB1)
       = [''target reached'']
   \<and> positions (snd (checkAndSell \<lparr>c_price = Some (Finite 4), c_now = 2000,
                         c_quote = Some \<lparr>outAmount = Finite 20\<rparr>, c_signature = Some ''sell1''\<rparr>
            (''M'', \<lparr>buyPriceB = Finite 2, amountB = Finite 5, buyTx = ''sig1'',
                      boughtAtB = 1000, quoteMintB = ''USDC'', targetPrice = Finite 4\<rparr>) botB1))
       = []
   \<and> checkAndSell \<lparr>c_price = Some (Finite 3), c_now = 2000,
                    c_quote = Some \<lparr>outAmount = Finite 20\<rparr>, c_signature = Some ''sell1''\<rparr>
            (''M'', \<lparr>buyPriceB = Finite 2, amountB = Finite 5, buyTx = ''sig1'',
                      boughtAtB = 1000, quoteMintB = ''USDC'', targetPrice = Finite 4\<rparr>) botB1
       = ([], botB1)"
proof -
  let ?p0 = "\<lparr>buy_price = Finite 1, amount = Finite (1/2), sold_25 = False, sold_50 = False\<rparr>"
  let ?p1 = "\<lparr>buy_price = Finite 1, amount = Finite (1/2), sold_25 = False, sold_50 = True\<rparr>"
  let ?e = "(''M'', \<lparr>buyPriceB = Finite 2, amountB = Finite 5, buyTx = ''sig1'',
                      boughtAtB = 1000, quoteMintB = ''USDC'', targetPrice = Finite 4\<rparr>)"
  let ?s4 = "\<lparr>c_price = Some (Finite 4), c_now = 2000,
             c_quote = Some \<lparr>outAmount = Finite 20\<rparr>, c_signature = Some ''sell1''\<rparr>"
  let ?s3 = "\<lparr>c_price = Some (Finite 3), c_now = 2000,
             c_quote = Some \<lparr>outAmount = Finite 20\<rparr>, c_signature = Some ''sell1''\<rparr>"
  note a = exit_rule_priority [where st = wsOpened and ref = 0 and pos = ?p0
      and currentPrice = "Finite 3" and env = "swapOk 1000" and ?b50.0 = True
      and ?b25.0 = True and ?b100.0 = True and cfg = wsCfg and tokenMint = "''M''"
      and senv = ?s4 and entry = ?e and stB = botB1 and cp = "Finite 4"]
  note b = exit_rule_priority [where st = wsAfterOne and ref = 0 and pos = ?p1
      and currentPrice = "Finite 3" and env = "swapOk 500" and ?b50.0 = True
      and ?b25.0 = True and ?b100.0 = True and cfg = wsCfg and tokenMint = "''M''"
      and senv = ?s3 and entry = ?e and stB = botB1 and cp = "Finite 3"]
  note c = exit_rule_priority [where st = wsOpened and ref = 0 and pos = ?p0
      and currentPrice = "Finite (1/2)" and env = "swapOk 1000" and ?b50.0 = True
      and ?b25.0 = True and ?b100.0 = True and cfg = wsCfg and tokenMint = "''M''"]
  note d = exit_rule_priority [where st = wsOpened and ref = 0 and pos = ?p0
      and currentPrice = "Finite 1" and env = "swapOk 1000" and ?b50.0 = True
      and ?b25.0 = True and ?b100.0 = True and cfg = wsCfg and tokenMint = "''M''"]
  have o: "objects wsOpened 0 = Some ?p0" "objects wsAfterOne 0 = Some ?p1"
    by (simp_all add: wsOpened_eq wsAfterOne_eq)
  have s: "fst (swapSell (swapOk bal) pct) = Returned True" for bal pct
    by (simp add: swapSell_swapOk)
  have m: "fle (Finite 4) (Finite 4)" "\<not> fle (Finite 4) (Finite 3)"
    "fsub (Finite 1) (fdiv (STOP_LOSS_PCT wsCfg) (Finite 100))
       = fsub (Finite 1) (fdiv (Finite 20) (Finite 100))"
    by (simp_all add: fle_def wsCfg_def)
  have l: "stopLoss wsCfg (Finite (1/2))" "\<not> stopLoss wsCfg (Finite 1)"
    by (rule multiplier_examples)+
  have w1: "monitorIter wsCfg (Returned (Some (Finite 3))) (swapOk 1000) ''M'' 0 wsOpened
      = (Continue, wsAfterOne)"
    using a [OF o(1) _ s s s]
    by (simp add: multiplier_examples wsOpened_eq wsAfterOne_eq swapSell_swapOk
          amountTokens_examples)
  have w2: "monitorIter wsCfg (Returned (Some (Finite 3))) (swapOk 500) ''M'' 0 wsAfterOne
      = (Continue, wsAfterTwo)"
    using b [OF o(2) _ s s s]
    by (simp add: multiplier_examples wsAfterOne_eq wsAfterTwo_eq swapSell_swapOk
          amountTokens_examples)
  have w3: "monitorIter wsCfg (Returned (Some (Finite (1/2)))) (swapOk 1000) ''M'' 0 wsOpened
      = (Break, wsStopped)"
    using c [OF o(1) _ s s s] l
    by (simp add: multiplier_examples stopLoss_def wsOpened_eq wsStopped_eq swapSell_swapOk
          amountTokens_examples)
  have w4: "monitorIter wsCfg (Returned (Some (Finite 1))) (swapOk 1000) ''M'' 0 wsOpened
      = (Continue, wsOpened)"
    using d [OF o(1) _ s s s] l
    by (simp add: multiplier_examples stopLoss_def)
  have w5: "fst (checkAndSell ?s4 ?e botB1) = [''target reached'']"
    "positions (snd (checkAndSell ?s4 ?e botB1)) = []"
    using a [OF o(1) _ s s s]
    by (simp_all add: m truthy_def botB1_eq)
  have w6: "checkAndSell ?s3 ?e botB1 = ([], botB1)"
    using b [OF o(2) _ s s s]
    by (simp add: m)
  from w1 w2 w3 w4 w5 w6 show ?thesis by simp
qed

text \<open>
  C3, as stated, fails: nothing tests for a present mint before a position is recorded.
  In the log-subscription bot a second pool event for the mint \<open>M\<close>, while the
  monitor of the first position is running (it has sold its 3x stage), replaces the
  record: \<^verbatim>\<open>positions\<close> then holds a new object with the new buy price and both flags
  unset, and two monitor tasks run for \<open>M\<close>. In the polling bot a second pool with
  another identifier and the same base mint replaces the record of the first buy.
\<close>

theorem second_position_replaces_first:
  "registry wsAfterOne ''M'' = Some 0
   \<and> objects wsAfterOne 0
       = Some \<lparr>buy_price = Finite 1, amount = Finite (1/2), sold_25 = False, sold_50 = True\<rparr>
   \<and> registry wsReopened ''M'' = Some 1
   \<and> objects wsReopened 1
       = Some \<lparr>buy_price = Finite 2, amount = Finite (1/4), sold_25 = False, sold_50 = False\<rparr>
   \<and> monitors wsReopened = [(''M'', 0), (''M'', 1)]
   \<and> map (\<lambda>e. (fst e, buyTx (snd e))) (positions botB1) = [(''M'', ''sig1'')]
   \<and> map (\<lambda>e. (fst e, buyTx (snd e))) (positions botB2) = [(''M'', ''sig2'')]"
  by (simp add: wsAfterOne_eq wsReopened_eq botB1_eq botB2_eq)

text \<open>
  C3, amended. The position registry holds at most one record per mint at every moment:
  the map of the polling bot keeps distinct keys through \<^verbatim>\<open>processNewPool\<close> and
  \<^verbatim>\<open>checkAndSellPositions\<close>, and the registry of the log-subscription bot is keyed by
  mint. Creating a position for a mint already present does not fail: the new record
  replaces the present one (the map does not grow), and \<^verbatim>\<open>detectNewPools\<close>, after a
  successful buy at a positive price, points the mint at a new object and starts one
  more monitor task for it, whatever the registry held.
\<close>

theorem position_created_by_overwriting:
  "(distinct (map fst (positions stB)) \<longrightarrow>
       distinct (map fst (positions (processNewPool cfg env p stB)))
     \<and> distinct (map fst (positions (snd (checkAndSell senv entry stB))))
     \<and> distinct (map fst (positions (recordPosition mint pos stB))))
   \<and> map_of (positions (recordPosition mint pos stB)) = (map_of (positions stB))(mint \<mapsto> pos)
   \<and> (mint \<in> fst ` set (positions stB) \<longrightarrow>
        length (positions (recordPosition mint pos stB)) = length (positions stB))
   \<and> (swapBuy buyEnv = Returned True \<and> flt (Finite 0) price \<longrightarrow>
        registry (onNewPool wcfg buyEnv (Returned (Some price)) mint st) mint = Some (fresh st)
      \<and> objects (onNewPool wcfg buyEnv (Returned (Some price)) mint st) (fresh st)
          = Some \<lparr>buy_price = price, amount = fdiv (BUY_AMOUNT_SOL wcfg) price,
                  sold_25 = False, sold_50 = False\<rparr>
      \<and> monitors (onNewPool wcfg buyEnv (Returned (Some price)) mint st)
          = monitors st @ [(mint, fresh st)])
   \<and> (distinct (map fst (positions stB)) \<longrightarrow>
        distinct (map fst (positions (snd (checkAndSellPositions envOf stB)))))"
proof -
  have a: "swapBuy buyEnv = Returned True \<and> flt (Finite 0) price \<longrightarrow>
      onNewPool wcfg buyEnv (Returned (Some price)) mint st = openPosition wcfg mint price st"
    by (simp add: onNewPool_def getPrice_truthy positive_truthy)
  have b: "registry (openPosition wcfg mint price st) mint = Some (fresh st)"
    "objects (openPosition wcfg mint price st) (fresh st)
       = Some \<lparr>buy_price = price, amount = fdiv (BUY_AMOUNT_SOL wcfg) price,
               sold_25 = False, sold_50 = False\<rparr>"
    "monitors (openPosition wcfg mint price st) = monitors st @ [(mint, fresh st)]"
    by (simp_all add: openPosition_def)
  have c: "map_of (positions (recordPosition mint pos stB)) = (map_of (positions stB))(mint \<mapsto> pos)"
    by (simp add: recordPosition_def update_conv')
  have d: "mint \<in> fst ` set (positions stB) \<longrightarrow>
      length (positions (recordPosition mint pos stB)) = length (positions stB)"
    by (simp add: recordPosition_def length_update_present)
  have e: "distinct (map fst (positions stB)) \<longrightarrow>
      distinct (map fst (positions (recordPosition mint pos stB)))"
    by (simp add: recordPosition_def distinct_update)
  show ?thesis
    using a b c d e processNewPool_distinct [of stB cfg env p]
      checkAndSell_distinct [of stB senv entry] checkAndSellPositions_inv [of envOf stB]
    by simp
qed

theorem position_created_by_overwriting_witness:
  "distinct (map fst (positions botB2))
   \<and> map_of (positions (recordPosition ''M''
        \<lparr>buyPriceB = Finite 4, amountB = Finite 5, buyTx = ''sig2'', boughtAtB = 2000,
         quoteMintB = ''USDC'', targetPrice = Finite 8\<rparr> botB1)) ''M''
       = Some \<lparr>buyPriceB = Finite 4, amountB = Finite 5, buyTx = ''sig2'', boughtAtB = 2000,
               quoteMintB = ''USDC'', targetPrice = Finite 8\<rparr>
   \<and> length (positions (recordPosition ''M''
        \<lparr>buyPriceB = Finite 4, amountB = Finite 5, buyTx = ''sig2'', boughtAtB = 2000,
         quoteMintB = ''USDC'', targetPrice = Finite 8\<rparr> botB1)) = 1
   \<and> registry wsReopened ''M'' = Some 1
   \<and> monitors wsReopened = [(''M'', 0), (''M'', 1)]"
proof -
  note h = position_created_by_overwriting [where stB = botB1 and cfg = cfgA
      and env = "envOk 4 ''sig2'' 2000" and p = "poolOf ''P2'' ''M''"
      and senv = "\<lparr>c_price = None, c_now = 0, c_quote = None, c_signature = None\<rparr>"
      and entry = "(''M'', \<lparr>buyPriceB = Finite 2, amountB = Finite 5, buyTx = ''sig1'',
                boughtAtB = 1000, quoteMintB = ''USDC'', targetPrice = Finite 4\<rparr>)"
      and mint = "''M''"
      and pos = "\<lparr>buyPriceB = Finite 4, amountB = Finite 5, buyTx = ''sig2'',
                  boughtAtB = 2000, quoteMintB = ''USDC'', targetPrice = Finite 8\<rparr>"
      and buyEnv = "swapOk 0" and price = "Finite 2" and wcfg = wsCfg and st = wsAfterOne,
      folded botB2_def wsReopened_def]
  have d: "distinct (map fst (positions botB1))" "''M'' \<in> fst ` set (positions botB1)"
    by (simp_all add: botB1_eq)
  have b: "swapBuy (swapOk 0) = Returned True \<and> flt (Finite 0) (Finite 2)"
    by (simp add: swapBuy_swapOk)
  have f: "fresh wsAfterOne = 1" "monitors wsAfterOne = [(''M'', 0)]"
    "length (positions botB1) = 1"
    by (simp_all add: wsAfterOne_eq botB1_eq)
  from h d b show ?thesis by (simp add: f)
qed

text \<open>
  C4, as stated, fails on \<^verbatim>\<open>monitorPosition\<close>, which has no status and no exit
  reason. The sale of the whole balance (1000 of 1000 tokens) at half the buy price is
  the stop-loss sale: it is logged as \<^verbatim>\<open>Stop loss triggered\<close>, not as a reached target.
  And the loop does not end only with the position closed: when the price request
  throws, the task ends while the position is still in the registry.
\<close>

theorem stop_loss_sale_not_target_reached:
  "fst (monitorIter wsCfg (Returned (Some (Finite (1/2)))) (swapOk 1000) ''M'' 0 wsOpened)
       = Break
   \<and> sellLog (snd (monitorIter wsCfg (Returned (Some (Finite (1/2)))) (swapOk 1000) ''M'' 0
                      wsOpened))
       = [(''M'', Finite 1, Some (Finite 1000))]
   \<and> console (snd (monitorIter wsCfg (Returned (Some (Finite (1/2)))) (swapOk 1000) ''M'' 0
                      wsOpened))
       = [''Stop loss triggered for M'']
   \<and> registry (snd (monitorIter wsCfg (Returned (Some (Finite (1/2)))) (swapOk 1000) ''M'' 0
                       wsOpened)) ''M'' = None
   \<and> monitorPosition wsCfg [(Throws ''timeout'', swapOk 1000)] ''M'' 0 wsOpened
       = (Died ''timeout'', wsOpened)
   \<and> registry wsOpened ''M'' = Some 0"
  by (simp add: wsOpened_eq monitorIter_def callSwapSell_def getPrice_def swapSell_swapOk
        amountTokens_examples multiplier_examples stage50_def stage25_def Let_def)

text \<open>
  C4, amended. In \<^verbatim>\<open>monitorPosition\<close> a pass makes no sale or one sale, of 50, 25 or
  100 percent. A sale of 100 percent asks for the whole token balance (a balance below
  \<open>2\<^sup>5\<^sup>3\<close> is read exactly), and it is made only by the stop-loss rule: the pass then does
  not go on to the next one, and the stop-loss condition held with neither stage rule
  applicable. A pass leaves the loop exactly by that rule: when the pass ends in
  \<^verbatim>\<open>break\<close>, it has called \<^verbatim>\<open>swapSell\<close> with 100 percent, deleted the position from
  the registry and logged \<^verbatim>\<open>Stop loss triggered\<close> (there is no \<^verbatim>\<open>target_reached\<close>
  reason); a pass that ends otherwise leaves registry and log alone, and the sales of
  50 and 25 percent never end in \<^verbatim>\<open>break\<close>. So a monitor that has finished has
  removed its position, and a monitor that is still running, or that an exception has
  ended, has not touched the registry. Under the stop-loss condition on the computed
  multiplier, with no stage rule applicable and no exception, the pass does end in
  \<^verbatim>\<open>break\<close>.
\<close>

theorem monitor_leaves_loop_at_stop_loss:
  "(bal < 2 ^ 53 \<longrightarrow> amountTokens bal (Finite 1) = Finite (real bal))
   \<and> (monitorIter cfg priceResp env tokenMint ref st = (r, st') \<longrightarrow>
        sellLog st' = sellLog st
        \<or> sellLog st' = sellLog st
             @ [(tokenMint, Finite (1/2), snd (swapSell env (Finite (1/2))))] \<and> r \<noteq> Break
        \<or> sellLog st' = sellLog st
             @ [(tokenMint, Finite (1/4), snd (swapSell env (Finite (1/4))))] \<and> r \<noteq> Break
        \<or> sellLog st' = sellLog st
             @ [(tokenMint, Finite 1, snd (swapSell env (Finite 1)))] \<and> r \<noteq> Continue
           \<and> (\<exists>pos currentPrice. objects st ref = Some pos
                 \<and> getPrice priceResp = Returned currentPrice
                 \<and> \<not> stage50 (fdiv currentPrice (buy_price pos)) pos
                 \<and> \<not> stage25 (fdiv currentPrice (buy_price pos)) pos
                 \<and> stopLoss cfg (fdiv currentPrice (buy_price pos))))
   \<and> (monitorIter cfg priceResp env tokenMint ref st = (Break, st') \<longrightarrow>
        registry st' = (registry st)(tokenMint := None)
      \<and> console st' = console st @ [''Stop loss triggered for '' @ tokenMint]
      \<and> sellLog st' = sellLog st @ [(tokenMint, Finite 1, snd (swapSell env (Finite 1)))])
   \<and> (monitorIter cfg priceResp env tokenMint ref st = (r, st') \<and> r \<noteq> Break \<longrightarrow>
        registry st' = registry st \<and> console st' = console st)
   \<and> (monitorPosition cfg passes tokenMint ref st = (Finished, st'') \<longrightarrow>
        registry st'' tokenMint = None)
   \<and> (monitorPosition cfg passes tokenMint ref st = (q, st'') \<and> q \<noteq> Finished \<longrightarrow>
        registry st'' = registry st)
   \<and> (objects st ref = Some pos' \<and> truthyD price
      \<and> fst (swapSell env (Finite 1)) = Returned sold
      \<and> \<not> (fle (Finite 3) (fdiv price (buy_price pos')) \<and> \<not> sold_50 pos')
      \<and> \<not> (fle (Finite 2) (fdiv price (buy_price pos')) \<and> \<not> sold_25 pos')
      \<and> fle (fdiv price (buy_price pos'))
            (fsub (Finite 1) (fdiv (STOP_LOSS_PCT cfg) (Finite 100))) \<longrightarrow>
        fst (monitorIter cfg (Returned (Some price)) env tokenMint ref st) = Break)"
proof -
  have last: "objects st ref = Some pos' \<and> truthyD price
      \<and> fst (swapSell env (Finite 1)) = Returned sold
      \<and> \<not> (fle (Finite 3) (fdiv price (buy_price pos')) \<and> \<not> sold_50 pos')
      \<and> \<not> (fle (Finite 2) (fdiv price (buy_price pos')) \<and> \<not> sold_25 pos')
      \<and> fle (fdiv price (buy_price pos'))
            (fsub (Finite 1) (fdiv (STOP_LOSS_PCT cfg) (Finite 100))) \<longrightarrow>
        fst (monitorIter cfg (Returned (Some price)) env tokenMint ref st) = Break"
    by (simp add: monitorIter_def getPrice_truthy truthyD_not_zero callSwapSell_def Let_def
          split_beta stage50_def stage25_def stopLoss_def)
  have shape: "monitorIter cfg priceResp env tokenMint ref st = (r, st') \<longrightarrow>
        sellLog st' = sellLog st
        \<or> sellLog st' = sellLog st
             @ [(tokenMint, Finite (1/2), snd (swapSell env (Finite (1/2))))] \<and> r \<noteq> Break
        \<or> sellLog st' = sellLog st
             @ [(tokenMint, Finite (1/4), snd (swapSell env (Finite (1/4))))] \<and> r \<noteq> Break
        \<or> sellLog st' = sellLog st
             @ [(tokenMint, Finite 1, snd (swapSell env (Finite 1)))] \<and> r \<noteq> Continue
           \<and> (\<exists>pos currentPrice. objects st ref = Some pos
                 \<and> getPrice priceResp = Returned currentPrice
                 \<and> \<not> stage50 (fdiv currentPrice (buy_price pos)) pos
                 \<and> \<not> stage25 (fdiv currentPrice (buy_price pos)) pos
                 \<and> stopLoss cfg (fdiv currentPrice (buy_price pos)))"
    using monitorIter_sell_shape [of cfg priceResp env tokenMint ref st r st'] by (rule impI)
  have exact: "bal < 2 ^ 53 \<longrightarrow> amountTokens bal (Finite 1) = Finite (real bal)"
    by (simp add: amountTokens_all)
  have brk: "monitorIter cfg priceResp env tokenMint ref st = (Break, st') \<longrightarrow>
        registry st' = (registry st)(tokenMint := None)
      \<and> console st' = console st @ [''Stop loss triggered for '' @ tokenMint]
      \<and> sellLog st' = sellLog st @ [(tokenMint, Finite 1, snd (swapSell env (Finite 1)))]"
    using monitorIter_Break [of cfg priceResp env tokenMint ref st st'] by simp
  have nbrk: "monitorIter cfg priceResp env tokenMint ref st = (r, st') \<and> r \<noteq> Break \<longrightarrow>
        registry st' = registry st \<and> console st' = console st"
    using monitorIter_not_Break [of cfg priceResp env tokenMint ref st r st'] by simp
  have fin: "monitorPosition cfg passes tokenMint ref st = (Finished, st'') \<longrightarrow>
        registry st'' tokenMint = None"
    using monitorPosition_Finished [of cfg passes tokenMint ref st st''] by simp
  have nfin: "monitorPosition cfg passes tokenMint ref st = (q, st'') \<and> q \<noteq> Finished \<longrightarrow>
        registry st'' = registry st"
    using monitorPosition_not_Finished [of cfg passes tokenMint ref st q st''] by simp
  show ?thesis
    by (rule conjI [OF exact conjI [OF shape conjI [OF brk conjI [OF nbrk
          conjI [OF fin conjI [OF nfin last]]]]]])
qed

text \<open>
  The witness: a monitor that sees the price 1 and then the price 1/2 finishes with
  the position removed, having asked to sell the whole balance of 1000; one that sees
  the price 1 twice is still running with the position in place.
\<close>

theorem monitor_leaves_loop_at_stop_loss_witness:
  "amountTokens 1000 (Finite 1) = Finite 1000
   \<and> fst (monitorPosition wsCfg
        [(Returned (Some (Finite 1)), swapOk 1000), (Returned (Some (Finite (1/2))), swapOk 1000)]
        ''M'' 0 wsOpened) = Finished
   \<and> registry (snd (monitorPosition wsCfg
        [(Returned (Some (Finite 1)), swapOk 1000), (Returned (Some (Finite (1/2))), swapOk 1000)]
        ''M'' 0 wsOpened)) ''M'' = None
   \<and> sellLog wsStopped = [(''M'', Finite 1, Some (Finite 1000))]
   \<and> monitorPosition wsCfg
        [(Returned (Some (Finite 1)), swapOk 1000), (Returned (Some (Finite 1)), swapOk 1000)]
        ''M'' 0 wsOpened = (Running, wsOpened)
   \<and> registry wsOpened ''M'' = Some 0"
proof -
  have stay: "monitorIter wsCfg (Returned (Some (Finite 1))) (swapOk 1000) ''M'' 0 wsOpened
      = (Continue, wsOpened)"
    by (simp add: wsOpened_eq monitorIter_def getPrice_def multiplier_examples stage50_def
          stage25_def Let_def)
  have stop: "monitorIter wsCfg (Returned (Some (Finite (1/2)))) (swapOk 1000) ''M'' 0 wsOpened
      = (Break, wsStopped)"
    by (simp add: wsStopped_eq wsOpened_eq monitorIter_def callSwapSell_def getPrice_def
          swapSell_swapOk amountTokens_examples multiplier_examples stage50_def stage25_def
          Let_def)
  have run: "monitorPosition wsCfg
        [(Returned (Some (Finite 1)), swapOk 1000), (Returned (Some (Finite (1/2))), swapOk 1000)]
        ''M'' 0 wsOpened
      = (Finished, wsStopped)"
    by (simp add: stay stop)
  have idle: "monitorPosition wsCfg
        [(Returned (Some (Finite 1)), swapOk 1000), (Returned (Some (Finite 1)), swapOk 1000)]
        ''M'' 0 wsOpened
      = (Running, wsOpened)"
    by (simp add: stay)
  note h = monitor_leaves_loop_at_stop_loss [where bal = 1000 and cfg = wsCfg
      and priceResp = "Returned (Some (Finite (1/2)))" and env = "swapOk 1000"
      and tokenMint = "''M''" and ref = 0 and st = wsOpened and st' = wsStopped
      and r = Break and q = Finished and st'' = wsStopped
      and passes = "[(Returned (Some (Finite 1)), swapOk 1000),
                     (Returned (Some (Finite (1/2))), swapOk 1000)]"]
  have reg: "registry wsOpened ''M'' = Some 0" "sellLog wsOpened = []"
    by (simp_all add: wsOpened_eq)
  from h run idle stop reg show ?thesis
    by (simp add: swapSell_swapOk)
qed

end
